theory Spec2Isabelle
  imports Complex_Main "HOL-Library.Log_Nat" "HOL-Library.Sublist"
begin

text \<open>
  The services of the sentiment analyzer that deduplicate, classify and monitor, as
  functions of HOL: \<open>deduplicateResults\<close> and \<open>searchSocialMedia\<close> of searchService.ts,
  \<open>analyzeSentiment\<close> and \<open>getFallbackAnalysis\<close> of analysisService.ts,
  \<open>executeMonitoringTasks\<close> and \<open>executeMonitorTask\<close> of monitorService.ts, and \<open>analyze\<close>
  of routers.ts. A function that can throw returns a sum with the error on the left; a
  function with effects takes the world it acts on and returns the new one; what a call
  that leaves the process comes to is an argument.
\<close>

section \<open>JavaScript values used by the services\<close>

subsection \<open>Numbers\<close>

text \<open>
  A JavaScript number is an IEEE 754 double. The finite doubles are rationals, and the
  result of an arithmetic operation is the exact result rounded to the nearest double,
  ties to the even significand. \<open>fl\<close> is that rounding for a 53-bit significand; the
  exponent is not bounded, which is exact for the magnitudes that occur here (counts of
  array elements, which stay below \<open>2 ^ 32\<close>, and percentages).
\<close>

definition round_half_even :: "rat \<Rightarrow> int" where
  "round_half_even q =
     (let f = \<lfloor>q\<rfloor>; d = q - of_int f
      in if d < 1 / 2 then f else if 1 / 2 < d then f + 1 else if even f then f else f + 1)"

definition ilog2 :: "rat \<Rightarrow> int" where
  \<comment> \<open>the binary exponent of a positive rational: \<open>2 powi e \<le> x < 2 powi (e + 1)\<close>\<close>
  "ilog2 x =
     (case quotient_of x of (a, b) \<Rightarrow>
        let d = bitlen a - bitlen b in if 2 powi d \<le> x then d else d - 1)"

definition fl :: "rat \<Rightarrow> rat" where
  "fl x =
     (if x = 0 then 0
      else let u = 2 powi (ilog2 \<bar>x\<bar> - 52) in of_int (round_half_even (x / u)) * u)"

definition js_div :: "rat \<Rightarrow> rat \<Rightarrow> rat" where
  \<comment> \<open>\<open>a / b\<close> for a non-zero divisor\<close>
  "js_div a b = fl (a / b)"

definition js_mul :: "rat \<Rightarrow> rat \<Rightarrow> rat" where
  "js_mul a b = fl (a * b)"

definition Math_round :: "rat \<Rightarrow> int" where
  \<comment> \<open>the nearest integer, a tie going to the larger one\<close>
  "Math_round x = \<lfloor>x + 1 / 2\<rfloor>"

subsection \<open>Strings\<close>

text \<open>
  A string is kept as a byte string: the UTF-8 encoding of the JavaScript string, with a
  surrogate that has no partner encoded on its own in three bytes, so that every
  JavaScript string has such an encoding. The literals of the source that are not ASCII
  are given by their bytes. A JavaScript string is a sequence of UTF-16 code units, and
  \<open>length\<close>, \<open>slice\<close> and the regular expressions count and match code units; \<open>utf16\<close>
  gives the code units of a byte string.
\<close>

definition continuation :: "char \<Rightarrow> bool" where
  "continuation c = (128 \<le> (of_char c :: nat) \<and> (of_char c :: nat) < 192)"

definition decode_first :: "char \<Rightarrow> string \<Rightarrow> nat list \<times> nat" where
  \<comment> \<open>the code units of the character that begins with the byte \<open>b\<close>, and the number of
      the bytes after \<open>b\<close> that belong to it; a byte that begins no character gives the
      replacement character\<close>
  "decode_first b bs =
     (let n = (of_char b :: nat)
      in if n < 128 then ([n], 0)
         else if 192 \<le> n \<and> n < 224 \<and> 1 \<le> length bs \<and> list_all continuation (take 1 bs)
         then ([(n mod 32) * 64 + of_char (bs ! 0) mod 64], 1)
         else if 224 \<le> n \<and> n < 240 \<and> 2 \<le> length bs \<and> list_all continuation (take 2 bs)
         then ([(n mod 16) * 4096 + (of_char (bs ! 0) mod 64) * 64 + of_char (bs ! 1) mod 64], 2)
         else if 240 \<le> n \<and> n < 248 \<and> 3 \<le> length bs \<and> list_all continuation (take 3 bs)
         then (let cp = (n mod 8) * 262144 + (of_char (bs ! 0) mod 64) * 4096
                        + (of_char (bs ! 1) mod 64) * 64 + of_char (bs ! 2) mod 64
               in if 65536 \<le> cp \<and> cp < 1114112
                  then ([55296 + (cp - 65536) div 1024, 56320 + (cp - 65536) mod 1024], 3)
                  else ([65533], 3))
         else ([65533], 0))"

function utf16 :: "string \<Rightarrow> nat list" where
  "utf16 [] = []"
| "utf16 (b # bs) = (case decode_first b bs of (us, k) \<Rightarrow> us @ utf16 (drop k bs))"
  by pat_completeness auto
termination
  by (relation "measure length") auto

definition js_length :: "string \<Rightarrow> nat" where
  \<comment> \<open>the property \<open>length\<close> of a string\<close>
  "js_length s = length (utf16 s)"

text \<open>
  \<open>toLowerCase\<close> on the code units. On a string of ASCII characters it changes the letters
  A to Z and nothing else. On any other string it is the case conversion of the Unicode
  tables that the runtime carries; these are no part of the repository, and the function
  is the argument \<open>lc\<close> of what depends on it.
\<close>

definition lower_unit :: "nat \<Rightarrow> nat" where
  "lower_unit u = (if 65 \<le> u \<and> u \<le> 90 then u + 32 else u)"

definition toLowerCase_units :: "(nat list \<Rightarrow> nat list) \<Rightarrow> nat list \<Rightarrow> nat list" where
  "toLowerCase_units lc us = (if list_all (\<lambda>u. u < 128) us then map lower_unit us else lc us)"

definition is_space :: "nat \<Rightarrow> bool" where
  \<comment> \<open>the class of white space of a regular expression: the white space and the line
      terminators of the language\<close>
  "is_space u =
     (u \<in> set [9, 10, 11, 12, 13, 32, 160, 5760, 8192, 8193, 8194, 8195, 8196, 8197, 8198,
                8199, 8200, 8201, 8202, 8232, 8233, 8239, 8287, 12288, 65279])"

function collapse_spaces :: "nat list \<Rightarrow> nat list" where
  \<comment> \<open>the replacement of every match of one or more white-space characters by a space:
      a match begins at the first white-space character and takes the whole run\<close>
  "collapse_spaces [] = []"
| "collapse_spaces (u # us) =
     (if is_space u then 32 # collapse_spaces (dropWhile is_space us)
      else u # collapse_spaces us)"
  by pat_completeness auto
termination
  by (relation "measure length") (auto simp: length_dropWhile_le less_Suc_eq_le)

text \<open>
  In \<open>getFallbackAnalysis\<close> the text in lower case is only searched for keywords of ASCII
  letters, and there the bytes serve: \<open>toLowerCase\<close> below changes the letters A to Z.
\<close>

definition lower_char :: "char \<Rightarrow> char" where
  "lower_char c =
     (case map_of (zip ''ABCDEFGHIJKLMNOPQRSTUVWXYZ'' ''abcdefghijklmnopqrstuvwxyz'') c of
        Some l \<Rightarrow> l
      | None \<Rightarrow> c)"

definition toLowerCase :: "string \<Rightarrow> string" where
  "toLowerCase s = map lower_char s"

fun startsWith :: "string \<Rightarrow> string \<Rightarrow> bool" where
  "startsWith s [] = True"
| "startsWith [] (k # ks) = False"
| "startsWith (c # cs) (k # ks) = (c = k \<and> startsWith cs ks)"

fun str_includes :: "string \<Rightarrow> string \<Rightarrow> bool" where
  "str_includes [] k = (k = [])"
| "str_includes (c # cs) k = (startsWith (c # cs) k \<or> str_includes cs k)"

function digits_of :: "nat \<Rightarrow> string \<Rightarrow> string" where
  \<comment> \<open>the decimal digits of \<open>n\<close> in front of \<open>acc\<close>\<close>
  "digits_of n acc =
     (let acc' = (''0123456789'' ! (n mod 10)) # acc
      in if n < 10 then acc' else digits_of (n div 10) acc')"
  by pat_completeness auto
termination
  by (relation "measure (\<lambda>(n, acc). n)") auto

definition string_of_nat :: "nat \<Rightarrow> string" where
  "string_of_nat n = digits_of n []"

definition string_of_int :: "int \<Rightarrow> string" where
  "string_of_int i = (if i < 0 then CHR ''-'' # string_of_nat (nat (- i)) else string_of_nat (nat i))"

section \<open>Search results (searchService.ts)\<close>

datatype platform = twitter | reddit | news | web

record SearchResult =
  "text" :: string
  source :: string
  author :: "string option"
  url :: "string option"
  date :: "string option"
  platform :: platform

definition dedup_key :: "(nat list \<Rightarrow> nat list) \<Rightarrow> SearchResult \<Rightarrow> nat list" where
  \<comment> \<open>the text in lower case, its first 100 code units, white space replaced\<close>
  "dedup_key lc result = collapse_spaces (take 100 (toLowerCase_units lc (utf16 (text result))))"

fun deduplicate_loop ::
  "(nat list \<Rightarrow> nat list) \<Rightarrow> SearchResult list \<Rightarrow> nat list set \<Rightarrow> SearchResult list
     \<Rightarrow> SearchResult list" where
  \<comment> \<open>the \<open>for\<close> loop over \<open>results\<close>, with the set \<open>seen\<close> and the array \<open>deduplicated\<close>\<close>
  "deduplicate_loop lc [] seen deduplicated = deduplicated"
| "deduplicate_loop lc (result # results) seen deduplicated =
     (let key = dedup_key lc result
      in if key \<notin> seen \<and> 20 < js_length (text result)
         then deduplicate_loop lc results (insert key seen) (deduplicated @ [result])
         else deduplicate_loop lc results seen deduplicated)"

definition deduplicateResults :: "(nat list \<Rightarrow> nat list) \<Rightarrow> SearchResult list \<Rightarrow> SearchResult list" where
  "deduplicateResults lc results = deduplicate_loop lc results {} []"

section \<open>Sentiment analysis (analysisService.ts)\<close>

datatype sentiment = positive | negative | neutral | mixed

record Comment =
  comment_text :: string
  comment_source :: string
  comment_author :: "string option"

text \<open>
  \<open>SentimentAnalysis\<close> as the function returns it at run time. On the path through the
  language model the first six fields are copied from the parsed response without a
  check, so each of them may be \<open>undefined\<close>, which is \<open>None\<close> here.
\<close>

record SentimentAnalysis =
  overallSentiment :: "sentiment option"
  positiveRatio :: "int option"
  negativeRatio :: "int option"
  neutralRatio :: "int option"
  summary :: "string option"
  keyThemes :: "string list option"
  positiveComments :: "Comment list"
  negativeComments :: "Comment list"
  neutralComments :: "Comment list"

definition comment_of :: "SearchResult \<Rightarrow> Comment" where
  \<comment> \<open>\<open>{ text: result.text, source: result.source, author: result.author }\<close>\<close>
  "comment_of result =
     \<lparr>comment_text = text result, comment_source = source result, comment_author = author result\<rparr>"

subsection \<open>The local fallback\<close>

definition positiveKeywords :: "string list" where
  "positiveKeywords =
     [''great'', ''excellent'', ''amazing'', ''love'', ''best'', ''impressed'', ''recommend'',
      ''fantastic'', ''helpful'', ''powerful'']"

definition negativeKeywords :: "string list" where
  "negativeKeywords =
     [''bad'', ''terrible'', ''awful'', ''hate'', ''worst'', ''disappointed'', ''issues'',
      ''problems'', ''expensive'', ''concerns'']"

definition hasPositive :: "SearchResult \<Rightarrow> bool" where
  "hasPositive result = list_ex (str_includes (toLowerCase (text result))) positiveKeywords"

definition hasNegative :: "SearchResult \<Rightarrow> bool" where
  "hasNegative result = list_ex (str_includes (toLowerCase (text result))) negativeKeywords"

record fallback_state =
  positiveCount :: nat
  negativeCount :: nat
  neutralCount :: nat
  positiveList :: "Comment list"
  negativeList :: "Comment list"
  neutralList :: "Comment list"

definition push_upto5 :: "Comment list \<Rightarrow> Comment \<Rightarrow> Comment list" where
  \<comment> \<open>\<open>if (comments.length < 5) comments.push(comment)\<close>\<close>
  "push_upto5 comments comment = (if length comments < 5 then comments @ [comment] else comments)"

definition fallback_step :: "fallback_state \<Rightarrow> SearchResult \<Rightarrow> fallback_state" where
  \<comment> \<open>the body of the \<open>for\<close> loop\<close>
  "fallback_step s result =
     (let comment = comment_of result
      in if hasPositive result \<and> \<not> hasNegative result
         then s\<lparr>positiveCount := positiveCount s + 1,
                positiveList := push_upto5 (positiveList s) comment\<rparr>
         else if hasNegative result \<and> \<not> hasPositive result
         then s\<lparr>negativeCount := negativeCount s + 1,
                negativeList := push_upto5 (negativeList s) comment\<rparr>
         else s\<lparr>neutralCount := neutralCount s + 1,
                neutralList := push_upto5 (neutralList s) comment\<rparr>)"

definition fallback_init :: fallback_state where
  "fallback_init =
     \<lparr>positiveCount = 0, negativeCount = 0, neutralCount = 0,
      positiveList = [], negativeList = [], neutralList = []\<rparr>"

definition fallback_loop :: "SearchResult list \<Rightarrow> fallback_state" where
  "fallback_loop searchResults = foldl fallback_step fallback_init searchResults"

definition ratio_of :: "nat \<Rightarrow> nat \<Rightarrow> int" where
  \<comment> \<open>\<open>Math.round((count / total) * 100)\<close>\<close>
  "ratio_of n total_n = Math_round (js_mul (js_div (of_nat n) (of_nat total_n)) 100)"

definition fallback_total :: "SearchResult list \<Rightarrow> nat" where
  \<comment> \<open>\<open>searchResults.length || 1\<close>\<close>
  "fallback_total searchResults = (if length searchResults = 0 then 1 else length searchResults)"

definition fallback_label :: "int \<Rightarrow> int \<Rightarrow> sentiment" where
  "fallback_label p ng =
     (if 60 < p then positive
      else if 60 < ng then negative
      else if 40 < p \<or> 40 < ng then mixed
      else neutral)"

definition summary_head :: string where
  \<comment> \<open>UTF-8 bytes of a literal of \<open>getFallbackAnalysis\<close>\<close>
  "summary_head =
     [CHR 0xE5, CHR 0x9F, CHR 0xBA, CHR 0xE4, CHR 0xBA, CHR 0x8E, CHR 0xE5, CHR 0xAF, CHR
      0xB9, CHR 0x20]"

definition summary_comments :: string where
  \<comment> \<open>UTF-8 bytes of a literal of \<open>getFallbackAnalysis\<close>\<close>
  "summary_comments =
     [CHR 0x20, CHR 0xE6, CHR 0x9D, CHR 0xA1, CHR 0xE7, CHR 0x94, CHR 0xA8, CHR 0xE6, CHR
      0x88, CHR 0xB7, CHR 0xE8, CHR 0xAF, CHR 0x84, CHR 0xE8, CHR 0xAE, CHR 0xBA, CHR 0xE7,
      CHR 0x9A, CHR 0x84, CHR 0xE5, CHR 0x88, CHR 0x86, CHR 0xE6, CHR 0x9E, CHR 0x90, CHR
      0xEF, CHR 0xBC, CHR 0x8C]"

definition summary_overall :: string where
  \<comment> \<open>UTF-8 bytes of a literal of \<open>getFallbackAnalysis\<close>\<close>
  "summary_overall =
     [CHR 0x20, CHR 0xE7, CHR 0x9A, CHR 0x84, CHR 0xE6, CHR 0x95, CHR 0xB4, CHR 0xE4, CHR
      0xBD, CHR 0x93, CHR 0xE8, CHR 0xAF, CHR 0x84, CHR 0xE4, CHR 0xBB, CHR 0xB7]"

definition label_positive :: string where
  \<comment> \<open>UTF-8 bytes of a literal of \<open>getFallbackAnalysis\<close>\<close>
  "label_positive =
     [CHR 0xE5, CHR 0x81, CHR 0x8F, CHR 0xE6, CHR 0xAD, CHR 0xA3, CHR 0xE9, CHR 0x9D, CHR
      0xA2]"

definition label_negative :: string where
  \<comment> \<open>UTF-8 bytes of a literal of \<open>getFallbackAnalysis\<close>\<close>
  "label_negative =
     [CHR 0xE5, CHR 0x81, CHR 0x8F, CHR 0xE8, CHR 0xB4, CHR 0x9F, CHR 0xE9, CHR 0x9D, CHR
      0xA2]"

definition label_mixed :: string where
  \<comment> \<open>UTF-8 bytes of a literal of \<open>getFallbackAnalysis\<close>\<close>
  "label_mixed =
     [CHR 0xE5, CHR 0x91, CHR 0x88, CHR 0xE7, CHR 0x8E, CHR 0xB0, CHR 0xE4, CHR 0xB8, CHR
      0xA4, CHR 0xE6, CHR 0x9E, CHR 0x81, CHR 0xE5, CHR 0x88, CHR 0x86, CHR 0xE5, CHR 0x8C,
      CHR 0x96]"

definition label_neutral :: string where
  \<comment> \<open>UTF-8 bytes of a literal of \<open>getFallbackAnalysis\<close>\<close>
  "label_neutral =
     [CHR 0xE8, CHR 0xBE, CHR 0x83, CHR 0xE4, CHR 0xB8, CHR 0xBA, CHR 0xE4, CHR 0xB8, CHR
      0xAD, CHR 0xE7, CHR 0xAB, CHR 0x8B]"

definition summary_pos :: string where
  \<comment> \<open>UTF-8 bytes of a literal of \<open>getFallbackAnalysis\<close>\<close>
  "summary_pos =
     [CHR 0xE3, CHR 0x80, CHR 0x82, CHR 0xE6, CHR 0xAD, CHR 0xA3, CHR 0xE9, CHR 0x9D, CHR
      0xA2, CHR 0xE8, CHR 0xAF, CHR 0x84, CHR 0xE4, CHR 0xBB, CHR 0xB7, CHR 0xE5, CHR 0x8D,
      CHR 0xA0, CHR 0x20]"

definition summary_neg :: string where
  \<comment> \<open>UTF-8 bytes of a literal of \<open>getFallbackAnalysis\<close>\<close>
  "summary_neg =
     [CHR 0x25, CHR 0xEF, CHR 0xBC, CHR 0x8C, CHR 0xE8, CHR 0xB4, CHR 0x9F, CHR 0xE9, CHR
      0x9D, CHR 0xA2, CHR 0xE8, CHR 0xAF, CHR 0x84, CHR 0xE4, CHR 0xBB, CHR 0xB7, CHR 0xE5,
      CHR 0x8D, CHR 0xA0, CHR 0x20]"

definition summary_neu :: string where
  \<comment> \<open>UTF-8 bytes of a literal of \<open>getFallbackAnalysis\<close>\<close>
  "summary_neu =
     [CHR 0x25, CHR 0xEF, CHR 0xBC, CHR 0x8C, CHR 0xE4, CHR 0xB8, CHR 0xAD, CHR 0xE7, CHR
      0xAB, CHR 0x8B, CHR 0xE8, CHR 0xAF, CHR 0x84, CHR 0xE4, CHR 0xBB, CHR 0xB7, CHR 0xE5,
      CHR 0x8D, CHR 0xA0, CHR 0x20]"

definition summary_body :: string where
  \<comment> \<open>UTF-8 bytes of a literal of \<open>getFallbackAnalysis\<close>\<close>
  "summary_body =
     [CHR 0x25, CHR 0xE3, CHR 0x80, CHR 0x82, CHR 0x0A, CHR 0x0A, CHR 0xE7, CHR 0x94, CHR
      0xA8, CHR 0xE6, CHR 0x88, CHR 0xB7, CHR 0xE4, CHR 0xB8, CHR 0xBB, CHR 0xE8, CHR 0xA6,
      CHR 0x81, CHR 0xE5, CHR 0x85, CHR 0xB3, CHR 0xE6, CHR 0xB3, CHR 0xA8, CHR 0xE4, CHR
      0xBA, CHR 0xA7, CHR 0xE5, CHR 0x93, CHR 0x81, CHR 0xE7, CHR 0x9A, CHR 0x84, CHR 0xE5,
      CHR 0x8A, CHR 0x9F, CHR 0xE8, CHR 0x83, CHR 0xBD, CHR 0xE7, CHR 0x89, CHR 0xB9, CHR
      0xE6, CHR 0x80, CHR 0xA7, CHR 0xE3, CHR 0x80, CHR 0x81, CHR 0xE4, CHR 0xBD, CHR 0xBF,
      CHR 0xE7, CHR 0x94, CHR 0xA8, CHR 0xE4, CHR 0xBD, CHR 0x93, CHR 0xE9, CHR 0xAA, CHR
      0x8C, CHR 0xE3, CHR 0x80, CHR 0x81, CHR 0xE6, CHR 0x80, CHR 0xA7, CHR 0xE4, CHR 0xBB,
      CHR 0xB7, CHR 0xE6, CHR 0xAF, CHR 0x94, CHR 0xE7, CHR 0xAD, CHR 0x89, CHR 0xE6, CHR
      0x96, CHR 0xB9, CHR 0xE9, CHR 0x9D, CHR 0xA2, CHR 0xE3, CHR 0x80, CHR 0x82, CHR 0xE6,
      CHR 0xAD, CHR 0xA3, CHR 0xE9, CHR 0x9D, CHR 0xA2, CHR 0xE8, CHR 0xAF, CHR 0x84, CHR
      0xE4, CHR 0xBB, CHR 0xB7, CHR 0xE4, CHR 0xB8, CHR 0xBB, CHR 0xE8, CHR 0xA6, CHR 0x81,
      CHR 0xE9, CHR 0x9B, CHR 0x86, CHR 0xE4, CHR 0xB8, CHR 0xAD, CHR 0xE5, CHR 0x9C, CHR
      0xA8, CHR 0xE4, CHR 0xBA, CHR 0xA7, CHR 0xE5, CHR 0x93, CHR 0x81, CHR 0xE7, CHR 0x9A,
      CHR 0x84, CHR 0xE6, CHR 0xA0, CHR 0xB8, CHR 0xE5, CHR 0xBF, CHR 0x83, CHR 0xE5, CHR
      0x8A, CHR 0x9F, CHR 0xE8, CHR 0x83, CHR 0xBD, CHR 0xE5, CHR 0x92, CHR 0x8C, CHR 0xE5,
      CHR 0x88, CHR 0x9B, CHR 0xE6, CHR 0x96, CHR 0xB0, CHR 0xE6, CHR 0x80, CHR 0xA7, CHR
      0xE4, CHR 0xB8, CHR 0x8A, CHR 0xEF, CHR 0xBC, CHR 0x8C, CHR 0xE8, CHR 0x80, CHR 0x8C,
      CHR 0xE8, CHR 0xB4, CHR 0x9F, CHR 0xE9, CHR 0x9D, CHR 0xA2, CHR 0xE8, CHR 0xAF, CHR
      0x84, CHR 0xE4, CHR 0xBB, CHR 0xB7, CHR 0xE5, CHR 0x88, CHR 0x99, CHR 0xE5, CHR 0xA4,
      CHR 0x9A, CHR 0xE6, CHR 0xB6, CHR 0x89, CHR 0xE5, CHR 0x8F, CHR 0x8A, CHR 0xE4, CHR
      0xBB, CHR 0xB7, CHR 0xE6, CHR 0xA0, CHR 0xBC, CHR 0xE3, CHR 0x80, CHR 0x81, CHR 0xE7,
      CHR 0xA8, CHR 0xB3, CHR 0xE5, CHR 0xAE, CHR 0x9A, CHR 0xE6, CHR 0x80, CHR 0xA7, CHR
      0xE6, CHR 0x88, CHR 0x96, CHR 0xE7, CHR 0x89, CHR 0xB9, CHR 0xE5, CHR 0xAE, CHR 0x9A,
      CHR 0xE4, CHR 0xBD, CHR 0xBF, CHR 0xE7, CHR 0x94, CHR 0xA8, CHR 0xE5, CHR 0x9C, CHR
      0xBA, CHR 0xE6, CHR 0x99, CHR 0xAF, CHR 0xE4, CHR 0xB8, CHR 0x8B, CHR 0xE7, CHR 0x9A,
      CHR 0x84, CHR 0xE5, CHR 0xB1, CHR 0x80, CHR 0xE9, CHR 0x99, CHR 0x90, CHR 0xE6, CHR
      0x80, CHR 0xA7, CHR 0xE3, CHR 0x80, CHR 0x82, CHR 0x0A, CHR 0x0A, CHR 0xE6, CHR 0x80,
      CHR 0xBB, CHR 0xE4, CHR 0xBD, CHR 0x93, CHR 0xE8, CHR 0x80, CHR 0x8C, CHR 0xE8, CHR
      0xA8, CHR 0x80, CHR 0xEF, CHR 0xBC, CHR 0x8C]"

definition summary_market :: string where
  \<comment> \<open>UTF-8 bytes of a literal of \<open>getFallbackAnalysis\<close>\<close>
  "summary_market =
     [CHR 0x20, CHR 0xE5, CHR 0x9C, CHR 0xA8, CHR 0xE5, CHR 0xB8, CHR 0x82, CHR 0xE5, CHR
      0x9C, CHR 0xBA, CHR 0xE4, CHR 0xB8, CHR 0x8A, CHR 0xE8, CHR 0x8E, CHR 0xB7, CHR 0xE5,
      CHR 0xBE, CHR 0x97, CHR 0xE4, CHR 0xBA, CHR 0x86]"

definition feedback_good :: string where
  \<comment> \<open>UTF-8 bytes of a literal of \<open>getFallbackAnalysis\<close>\<close>
  "feedback_good =
     [CHR 0xE8, CHR 0xBE, CHR 0x83, CHR 0xE5, CHR 0xA5, CHR 0xBD, CHR 0xE7, CHR 0x9A, CHR
      0x84]"

definition feedback_bad :: string where
  \<comment> \<open>UTF-8 bytes of a literal of \<open>getFallbackAnalysis\<close>\<close>
  "feedback_bad =
     [CHR 0xE8, CHR 0xBE, CHR 0x83, CHR 0xE5, CHR 0xB7, CHR 0xAE, CHR 0xE7, CHR 0x9A, CHR
      0x84]"

definition feedback_medium :: string where
  \<comment> \<open>UTF-8 bytes of a literal of \<open>getFallbackAnalysis\<close>\<close>
  "feedback_medium =
     [CHR 0xE4, CHR 0xB8, CHR 0xAD, CHR 0xE7, CHR 0xAD, CHR 0x89, CHR 0xE7, CHR 0x9A, CHR
      0x84]"

definition summary_tail :: string where
  \<comment> \<open>UTF-8 bytes of a literal of \<open>getFallbackAnalysis\<close>\<close>
  "summary_tail =
     [CHR 0xE7, CHR 0x94, CHR 0xA8, CHR 0xE6, CHR 0x88, CHR 0xB7, CHR 0xE5, CHR 0x8F, CHR
      0x8D, CHR 0xE9, CHR 0xA6, CHR 0x88, CHR 0xEF, CHR 0xBC, CHR 0x8C, CHR 0xE5, CHR 0xBB,
      CHR 0xBA, CHR 0xE8, CHR 0xAE, CHR 0xAE, CHR 0xE5, CHR 0x85, CHR 0xB3, CHR 0xE6, CHR
      0xB3, CHR 0xA8, CHR 0xE7, CHR 0x94, CHR 0xA8, CHR 0xE6, CHR 0x88, CHR 0xB7, CHR 0xE6,
      CHR 0x8F, CHR 0x90, CHR 0xE5, CHR 0x87, CHR 0xBA, CHR 0xE7, CHR 0x9A, CHR 0x84, CHR
      0xE5, CHR 0x85, CHR 0xB7, CHR 0xE4, CHR 0xBD, CHR 0x93, CHR 0xE9, CHR 0x97, CHR 0xAE,
      CHR 0xE9, CHR 0xA2, CHR 0x98, CHR 0xE4, CHR 0xBB, CHR 0xA5, CHR 0xE6, CHR 0x8C, CHR
      0x81, CHR 0xE7, CHR 0xBB, CHR 0xAD, CHR 0xE6, CHR 0x94, CHR 0xB9, CHR 0xE8, CHR 0xBF,
      CHR 0x9B, CHR 0xE4, CHR 0xBA, CHR 0xA7, CHR 0xE5, CHR 0x93, CHR 0x81, CHR 0xE3, CHR
      0x80, CHR 0x82]"

definition theme1 :: string where
  \<comment> \<open>UTF-8 bytes of a literal of \<open>getFallbackAnalysis\<close>\<close>
  "theme1 =
     [CHR 0xE4, CHR 0xBA, CHR 0xA7, CHR 0xE5, CHR 0x93, CHR 0x81, CHR 0xE5, CHR 0x8A, CHR
      0x9F, CHR 0xE8, CHR 0x83, CHR 0xBD]"

definition theme2 :: string where
  \<comment> \<open>UTF-8 bytes of a literal of \<open>getFallbackAnalysis\<close>\<close>
  "theme2 =
     [CHR 0xE7, CHR 0x94, CHR 0xA8, CHR 0xE6, CHR 0x88, CHR 0xB7, CHR 0xE4, CHR 0xBD, CHR
      0x93, CHR 0xE9, CHR 0xAA, CHR 0x8C]"

definition theme3 :: string where
  \<comment> \<open>UTF-8 bytes of a literal of \<open>getFallbackAnalysis\<close>\<close>
  "theme3 =
     [CHR 0xE6, CHR 0x80, CHR 0xA7, CHR 0xE4, CHR 0xBB, CHR 0xB7, CHR 0xE6, CHR 0xAF, CHR
      0x94]"

definition theme4 :: string where
  \<comment> \<open>UTF-8 bytes of a literal of \<open>getFallbackAnalysis\<close>\<close>
  "theme4 =
     [CHR 0xE6, CHR 0x8A, CHR 0x80, CHR 0xE6, CHR 0x9C, CHR 0xAF, CHR 0xE8, CHR 0x83, CHR
      0xBD, CHR 0xE5, CHR 0x8A, CHR 0x9B]"

definition theme5 :: string where
  \<comment> \<open>UTF-8 bytes of a literal of \<open>getFallbackAnalysis\<close>\<close>
  "theme5 =
     [CHR 0xE5, CHR 0xAE, CHR 0xA2, CHR 0xE6, CHR 0x88, CHR 0xB7, CHR 0xE6, CHR 0x9C, CHR
      0x8D, CHR 0xE5, CHR 0x8A, CHR 0xA1]"

definition fallback_summary :: "string \<Rightarrow> nat \<Rightarrow> sentiment \<Rightarrow> int \<Rightarrow> int \<Rightarrow> int \<Rightarrow> string" where
  "fallback_summary productName n label p ng nu =
     summary_head @ string_of_nat n @ summary_comments @ productName @ summary_overall
     @ (if label = positive then label_positive
        else if label = negative then label_negative
        else if label = mixed then label_mixed else label_neutral)
     @ summary_pos @ string_of_int p @ summary_neg @ string_of_int ng
     @ summary_neu @ string_of_int nu @ summary_body @ productName @ summary_market
     @ (if label = positive then feedback_good
        else if label = negative then feedback_bad else feedback_medium)
     @ summary_tail"

definition getFallbackAnalysis :: "string \<Rightarrow> SearchResult list \<Rightarrow> SentimentAnalysis" where
  "getFallbackAnalysis productName searchResults =
     (let s = fallback_loop searchResults;
          total_n = fallback_total searchResults;
          p = ratio_of (positiveCount s) total_n;
          ng = ratio_of (negativeCount s) total_n;
          nu = 100 - p - ng;
          label = fallback_label p ng
      in \<lparr>overallSentiment = Some label,
          positiveRatio = Some p,
          negativeRatio = Some ng,
          neutralRatio = Some nu,
          summary = Some (fallback_summary productName (length searchResults) label p ng nu),
          keyThemes = Some [theme1, theme2, theme3, theme4, theme5],
          positiveComments = positiveList s,
          negativeComments = negativeList s,
          neutralComments = neutralList s\<rparr>)"

subsection \<open>The path through the language model\<close>

datatype js_error = Error string | SyntaxError | TypeError

text \<open>
  The parsed response, seen through the nine properties that \<open>analyzeSentiment\<close> reads
  from it. A property that the object does not have reads as \<open>undefined\<close> (\<open>None\<close>); a
  parsed value that is no object (a number, a string, a boolean, an array) has none of them.
  The values are typed as the response schema declares them, except that a number of an
  index list need not be an integer. A value of another type (an index list that is no
  array, an element of it that is no number) is not represented; the code meets it inside
  the \<open>try\<close> block as well.
\<close>

record llm_analysis =
  r_overallSentiment :: "sentiment option"
  r_positiveRatio :: "int option"
  r_negativeRatio :: "int option"
  r_neutralRatio :: "int option"
  r_summary :: "string option"
  r_keyThemes :: "string list option"
  r_positiveIndices :: "rat list option"
  r_negativeIndices :: "rat list option"
  r_neutralIndices :: "rat list option"

text \<open>What the call of the language model and the parsing of its answer come to.\<close>

datatype llm_outcome =
    InvokeThrows js_error    \<comment> \<open>\<open>invokeLLM\<close> rejects, or the response has no \<open>choices\<close>\<close>
  | NoContent                \<comment> \<open>the message content is missing or empty\<close>
  | ParseThrows              \<comment> \<open>\<open>JSON.parse\<close> throws\<close>
  | ParsedNull               \<comment> \<open>the content is the JSON text \<open>null\<close>\<close>
  | Parsed llm_analysis      \<comment> \<open>any other JSON value\<close>

definition is_integer :: "rat \<Rightarrow> bool" where
  "is_integer i = (of_int \<lfloor>i\<rfloor> = i)"

definition lookup_result :: "SearchResult list \<Rightarrow> rat \<Rightarrow> js_error + Comment" where
  \<comment> \<open>\<open>searchResults[i - 1]\<close> and the three property reads on it; an index that is no
      element of the array gives \<open>undefined\<close>, and reading \<open>text\<close> from it throws\<close>
  "lookup_result searchResults i =
     (if is_integer (i - 1) \<and> 0 \<le> i - 1 \<and> i - 1 < of_nat (length searchResults)
      then Inr (comment_of (searchResults ! nat \<lfloor>i - 1\<rfloor>))
      else Inl TypeError)"

fun map_results :: "SearchResult list \<Rightarrow> rat list \<Rightarrow> js_error + Comment list" where
  "map_results searchResults [] = Inr []"
| "map_results searchResults (i # indices) =
     (case lookup_result searchResults i of
        Inl e \<Rightarrow> Inl e
      | Inr c \<Rightarrow> (case map_results searchResults indices of
                    Inl e \<Rightarrow> Inl e
                  | Inr cs \<Rightarrow> Inr (c # cs)))"

definition getComments :: "SearchResult list \<Rightarrow> rat list \<Rightarrow> js_error + Comment list" where
  "getComments searchResults indices =
     map_results searchResults
       (take 5 (filter (\<lambda>i. 1 \<le> i \<and> i \<le> of_nat (length searchResults)) indices))"

definition or_empty :: "rat list option \<Rightarrow> rat list" where
  \<comment> \<open>\<open>indices || []\<close>\<close>
  "or_empty indices = (case indices of None \<Rightarrow> [] | Some is \<Rightarrow> is)"

definition build_analysis :: "SearchResult list \<Rightarrow> llm_analysis \<Rightarrow> js_error + SentimentAnalysis" where
  \<comment> \<open>the object literal of the \<open>return\<close> statement, its fields evaluated in order\<close>
  "build_analysis searchResults analysis =
     (case getComments searchResults (or_empty (r_positiveIndices analysis)) of
        Inl e \<Rightarrow> Inl e
      | Inr pc \<Rightarrow>
     (case getComments searchResults (or_empty (r_negativeIndices analysis)) of
        Inl e \<Rightarrow> Inl e
      | Inr nc \<Rightarrow>
     (case getComments searchResults (or_empty (r_neutralIndices analysis)) of
        Inl e \<Rightarrow> Inl e
      | Inr uc \<Rightarrow>
          Inr \<lparr>overallSentiment = r_overallSentiment analysis,
               positiveRatio = r_positiveRatio analysis,
               negativeRatio = r_negativeRatio analysis,
               neutralRatio = r_neutralRatio analysis,
               summary = r_summary analysis,
               keyThemes = r_keyThemes analysis,
               positiveComments = pc,
               negativeComments = nc,
               neutralComments = uc\<rparr>)))"

definition analyze_try :: "SearchResult list \<Rightarrow> llm_outcome \<Rightarrow> js_error + SentimentAnalysis" where
  \<comment> \<open>the body of the \<open>try\<close> block\<close>
  "analyze_try searchResults outcome =
     (case outcome of
        InvokeThrows e \<Rightarrow> Inl e
      | NoContent \<Rightarrow> Inl (Error ''No response from LLM'')
      | ParseThrows \<Rightarrow> Inl SyntaxError
      | ParsedNull \<Rightarrow> Inl TypeError
      | Parsed analysis \<Rightarrow> build_analysis searchResults analysis)"

definition analyzeSentiment :: "string \<Rightarrow> SearchResult list \<Rightarrow> llm_outcome \<Rightarrow> js_error + SentimentAnalysis" where
  \<comment> \<open>\<open>try { ... } catch (error) { return getFallbackAnalysis(productName, searchResults) }\<close>;
      \<open>Inl\<close> would be an error that reaches the caller\<close>
  "analyzeSentiment productName searchResults outcome =
     (case analyze_try searchResults outcome of
        Inr analysis \<Rightarrow> Inr analysis
      | Inl error \<Rightarrow> Inr (getFallbackAnalysis productName searchResults))"

section \<open>Persistence (db.ts, schema.ts)\<close>

text \<open>
  The rows of the tables, with the columns that the services read or write. The columns
  \<open>createdAt\<close> and \<open>updatedAt\<close>, which the database sets, are left out, and the nine columns
  of an analysis record that hold the analysis are one field.
\<close>

datatype frequency = daily | weekly | monthly

record MonitorTask =
  task_id :: int
  userId :: int
  task_productName :: string
  isActive :: bool
  frequency :: frequency
  notifyOnSignificantChange :: bool
  significantChangeThreshold :: int
  notifyEmail :: bool
  notifyInApp :: bool
  lastAnalysisId :: "int option"
  lastAnalyzedAt :: "nat option"
  lastSentimentScore :: "int option"

record AnalysisRecord =
  record_id :: int
  record_userId :: int
  record_productName :: string
  record_analysis :: SentimentAnalysis
  totalCommentsAnalyzed :: nat
  record_sources :: "string list"

datatype notification_type = sentiment_change | analysis_complete | monitor_alert

record Notification =
  notification_id :: int
  notification_userId :: int
  notification_type :: notification_type
  title :: string
  message :: string
  analysisId :: "int option"
  monitorTaskId :: "int option"
  isRead :: bool

record SentimentTrend =
  trend_id :: int
  trend_productName :: string
  trend_positiveRatio :: int
  trend_negativeRatio :: int
  trend_neutralRatio :: int
  overallScore :: int
  twitterCount :: int
  redditCount :: int
  otherCount :: int
  totalCount :: int
  trend_analysisId :: "int option"
  recordedAt :: nat

text \<open>
  The lines that the monitoring service, \<open>analyzeSentiment\<close> and \<open>analyze\<close> write to
  the console, by kind of line and the values put into it.
\<close>

datatype log_entry =
    LogSweepStart
  | LogFound nat
  | LogExecuting int string
  | LogNoResults string
  | LogAnalysisError js_error
  | LogSignificantChange string "int option"
  | LogTaskCompleted int "int option"
  | LogTaskError int js_error
  | LogOwnerNotificationFailed js_error
  | LogSaveFailed js_error
  | LogSweepCompleted

text \<open>
  Everything outside the process that a run reads or writes: the four tables with the next
  value of the auto-increment column of the two tables that a run inserts into, the
  notifications handed to \<open>notifyOwner\<close>, and the console.
\<close>

record world =
  analysisRecords :: "AnalysisRecord list"
  analysisAutoInc :: int
  monitorTasks :: "MonitorTask list"
  notifications :: "Notification list"
  notificationAutoInc :: int
  sentimentTrends :: "SentimentTrend list"
  ownerNotifications :: "(string \<times> string) list"
  console :: "log_entry list"

record SourceBreakdown =
  twitter_count :: nat
  reddit_count :: nat
  news_count :: nat
  web_count :: nat

record SearchResponse =
  results :: "SearchResult list"
  totalFound :: nat
  sources :: "string list"
  sourceBreakdown :: SourceBreakdown

fun unique :: "string list \<Rightarrow> string list" where
  \<comment> \<open>\<open>Array.from(new Set(xs))\<close>: the first occurrence of each element, in order\<close>
  "unique [] = []"
| "unique (x # xs) = x # filter (\<lambda>y. y \<noteq> x) (unique xs)"

definition searchSocialMedia ::
  "(nat list \<Rightarrow> nat list) \<Rightarrow> SearchResult list \<Rightarrow> SearchResult list \<Rightarrow> SearchResult list
     \<Rightarrow> SearchResult list \<Rightarrow> SearchResponse" where
  \<comment> \<open>what \<open>searchSocialMedia\<close> makes of the results of its four searches\<close>
  "searchSocialMedia lc twitterResults redditResults newsResults webResults =
     (let allResults = twitterResults @ redditResults @ newsResults @ webResults;
          deduplicatedResults = deduplicateResults lc allResults
      in \<lparr>results = deduplicatedResults,
          totalFound = length deduplicatedResults,
          sources = unique (map source deduplicatedResults),
          sourceBreakdown =
            \<lparr>twitter_count = length twitterResults, reddit_count = length redditResults,
             news_count = length newsResults, web_count = length webResults\<rparr>\<rparr>)"

text \<open>
  What the calls that leave the process come to during one run: the search, the language
  model, each write of the database (\<open>Some e\<close> when it throws \<open>e\<close>), \<open>notifyOwner\<close>, and
  the clock.
\<close>

record run_env =
  searchOutcome :: "js_error + SearchResponse"
  llmOutcome :: llm_outcome
  createAnalysisRecordThrows :: "js_error option"
  updateMonitorTaskThrows :: "js_error option"
  createNotificationThrows :: "js_error option"
  notifyOwnerThrows :: "js_error option"
  now :: nat

definition console_log :: "log_entry \<Rightarrow> world \<Rightarrow> world" where
  "console_log entry w = w\<lparr>console := console w @ [entry]\<rparr>"

definition createAnalysisRecord ::
  "js_error option \<Rightarrow> int \<Rightarrow> string \<Rightarrow> SentimentAnalysis \<Rightarrow> nat \<Rightarrow> string list \<Rightarrow> world
     \<Rightarrow> (js_error + int) \<times> world" where
  \<comment> \<open>inserts the row and returns its \<open>insertId\<close>\<close>
  "createAnalysisRecord throws uid productName analysis n srcs w =
     (case throws of
        Some e \<Rightarrow> (Inl e, w)
      | None \<Rightarrow>
          (Inr (analysisAutoInc w),
           w\<lparr>analysisRecords := analysisRecords w @
                 [\<lparr>record_id = analysisAutoInc w, record_userId = uid,
                   record_productName = productName, record_analysis = analysis,
                   totalCommentsAnalyzed = n, record_sources = srcs\<rparr>],
              analysisAutoInc := analysisAutoInc w + 1\<rparr>))"

definition set_last :: "int \<Rightarrow> nat \<Rightarrow> int option \<Rightarrow> MonitorTask \<Rightarrow> MonitorTask" where
  \<comment> \<open>\<open>set({ lastAnalysisId, lastAnalyzedAt, lastSentimentScore })\<close>; a value that is
      \<open>undefined\<close> leaves its column as it is\<close>
  "set_last aid t score task =
     task\<lparr>lastAnalysisId := Some aid, lastAnalyzedAt := Some t,
          lastSentimentScore := (case score of None \<Rightarrow> lastSentimentScore task | Some c \<Rightarrow> Some c)\<rparr>"

definition updateMonitorTask ::
  "js_error option \<Rightarrow> int \<Rightarrow> (MonitorTask \<Rightarrow> MonitorTask) \<Rightarrow> world \<Rightarrow> (js_error + unit) \<times> world" where
  \<comment> \<open>\<open>update(monitorTasks).set(data).where(eq(monitorTasks.id, id))\<close>\<close>
  "updateMonitorTask throws tid data w =
     (case throws of
        Some e \<Rightarrow> (Inl e, w)
      | None \<Rightarrow>
          (Inr (),
           w\<lparr>monitorTasks := map (\<lambda>task. if task_id task = tid then data task else task)
                                 (monitorTasks w)\<rparr>))"

definition createNotification ::
  "js_error option \<Rightarrow> int \<Rightarrow> notification_type \<Rightarrow> string \<Rightarrow> string \<Rightarrow> int \<Rightarrow> int \<Rightarrow> world
     \<Rightarrow> (js_error + int) \<times> world" where
  "createNotification throws uid ty ttl msg aid tid w =
     (case throws of
        Some e \<Rightarrow> (Inl e, w)
      | None \<Rightarrow>
          (Inr (notificationAutoInc w),
           w\<lparr>notifications := notifications w @
                 [\<lparr>notification_id = notificationAutoInc w, notification_userId = uid,
                   notification_type = ty, title = ttl, message = msg,
                   analysisId = Some aid, monitorTaskId = Some tid, isRead = False\<rparr>],
              notificationAutoInc := notificationAutoInc w + 1\<rparr>))"

definition notifyOwner :: "js_error option \<Rightarrow> string \<Rightarrow> string \<Rightarrow> world \<Rightarrow> (js_error + unit) \<times> world" where
  "notifyOwner throws ttl content w =
     (case throws of
        Some e \<Rightarrow> (Inl e, w)
      | None \<Rightarrow> (Inr (), w\<lparr>ownerNotifications := ownerNotifications w @ [(ttl, content)]\<rparr>))"

definition getActiveMonitorTasks :: "world \<Rightarrow> MonitorTask list" where
  "getActiveMonitorTasks w = filter isActive (monitorTasks w)"

section \<open>Monitoring (monitorService.ts)\<close>

datatype direction = up | down

definition dir_up :: string where
  \<comment> \<open>UTF-8 bytes of a literal of \<open>executeMonitorTask\<close>\<close>
  "dir_up =
     [CHR 0xE4, CHR 0xB8, CHR 0x8A, CHR 0xE5, CHR 0x8D, CHR 0x87]"

definition dir_down :: string where
  \<comment> \<open>UTF-8 bytes of a literal of \<open>executeMonitorTask\<close>\<close>
  "dir_down =
     [CHR 0xE4, CHR 0xB8, CHR 0x8B, CHR 0xE9, CHR 0x99, CHR 0x8D]"

definition title_tail :: string where
  \<comment> \<open>UTF-8 bytes of a literal of \<open>executeMonitorTask\<close>\<close>
  "title_tail =
     [CHR 0x20, CHR 0xE8, CHR 0x88, CHR 0x86, CHR 0xE6, CHR 0x83, CHR 0x85, CHR 0xE5, CHR
      0x8F, CHR 0x98, CHR 0xE5, CHR 0x8C, CHR 0x96, CHR 0xE6, CHR 0x8F, CHR 0x90, CHR 0xE9,
      CHR 0x86, CHR 0x92]"

definition msg_score :: string where
  \<comment> \<open>UTF-8 bytes of a literal of \<open>executeMonitorTask\<close>\<close>
  "msg_score =
     [CHR 0x20, CHR 0xE7, CHR 0x9A, CHR 0x84, CHR 0xE8, CHR 0x88, CHR 0x86, CHR 0xE6, CHR
      0x83, CHR 0x85, CHR 0xE8, CHR 0xAF, CHR 0x84, CHR 0xE5, CHR 0x88, CHR 0x86]"

definition msg_le :: string where
  \<comment> \<open>UTF-8 bytes of a literal of \<open>executeMonitorTask\<close>\<close>
  "msg_le =
     [CHR 0xE4, CHR 0xBA, CHR 0x86, CHR 0x20]"

definition msg_current :: string where
  \<comment> \<open>UTF-8 bytes of a literal of \<open>executeMonitorTask\<close>\<close>
  "msg_current =
     [CHR 0x25, CHR 0xEF, CHR 0xBC, CHR 0x8C, CHR 0xE5, CHR 0xBD, CHR 0x93, CHR 0xE5, CHR
      0x89, CHR 0x8D, CHR 0xE6, CHR 0xAD, CHR 0xA3, CHR 0xE9, CHR 0x9D, CHR 0xA2, CHR 0xE8,
      CHR 0xAF, CHR 0x84, CHR 0xE4, CHR 0xBB, CHR 0xB7, CHR 0xE5, CHR 0x8D, CHR 0xA0, CHR
      0xE6, CHR 0xAF, CHR 0x94, CHR 0xE4, CHR 0xB8, CHR 0xBA, CHR 0x20]"

definition msg_tail :: string where
  \<comment> \<open>UTF-8 bytes of a literal of \<open>executeMonitorTask\<close>\<close>
  "msg_tail =
     [CHR 0x25, CHR 0xE3, CHR 0x80, CHR 0x82, CHR 0xE5, CHR 0xBB, CHR 0xBA, CHR 0xE8, CHR
      0xAE, CHR 0xAE, CHR 0xE6, CHR 0x9F, CHR 0xA5, CHR 0xE7, CHR 0x9C, CHR 0x8B, CHR 0xE6,
      CHR 0x9C, CHR 0x80, CHR 0xE6, CHR 0x96, CHR 0xB0, CHR 0xE5, CHR 0x88, CHR 0x86, CHR
      0xE6, CHR 0x9E, CHR 0x90, CHR 0xE6, CHR 0x8A, CHR 0xA5, CHR 0xE5, CHR 0x91, CHR 0x8A,
      CHR 0xE4, CHR 0xBA, CHR 0x86, CHR 0xE8, CHR 0xA7, CHR 0xA3, CHR 0xE8, CHR 0xAF, CHR
      0xA6, CHR 0xE6, CHR 0x83, CHR 0x85, CHR 0xE3, CHR 0x80, CHR 0x82]"

definition direction_text :: "direction \<Rightarrow> string" where
  "direction_text d = (case d of up \<Rightarrow> dir_up | down \<Rightarrow> dir_down)"

definition changeAmount :: "MonitorTask \<Rightarrow> int option \<Rightarrow> int option" where
  \<comment> \<open>the variable \<open>changeAmount\<close> after the check; \<open>None\<close> is \<open>NaN\<close>, the difference
      when the current score is \<open>undefined\<close>\<close>
  "changeAmount task currentSentimentScore =
     (case lastSentimentScore task of
        None \<Rightarrow> Some 0
      | Some previous \<Rightarrow>
          if notifyOnSignificantChange task
          then (case currentSentimentScore of
                  None \<Rightarrow> None
                | Some current \<Rightarrow> Some \<bar>current - previous\<bar>)
          else Some 0)"

definition hasSignificantChange :: "MonitorTask \<Rightarrow> int option \<Rightarrow> bool" where
  \<comment> \<open>the variable \<open>hasSignificantChange\<close> after the check; a comparison with \<open>NaN\<close>
      is false\<close>
  "hasSignificantChange task currentSentimentScore =
     (case lastSentimentScore task of
        None \<Rightarrow> False
      | Some previous \<Rightarrow>
          if notifyOnSignificantChange task
          then (case changeAmount task currentSentimentScore of
                  None \<Rightarrow> False
                | Some amount \<Rightarrow> significantChangeThreshold task \<le> amount)
          else False)"

definition changeDirection :: "MonitorTask \<Rightarrow> int option \<Rightarrow> direction" where
  \<comment> \<open>\<open>currentSentimentScore > (task.lastSentimentScore || 0)\<close>; a comparison with
      \<open>undefined\<close> is false\<close>
  "changeDirection task currentSentimentScore =
     (let previous = (case lastSentimentScore task of
                        None \<Rightarrow> 0
                      | Some p \<Rightarrow> if p = 0 then 0 else p)
      in (case currentSentimentScore of
            None \<Rightarrow> down
          | Some current \<Rightarrow> if previous < current then up else down))"

definition toFixed1 :: "int option \<Rightarrow> string" where
  \<comment> \<open>\<open>toFixed(1)\<close> of an integer or of \<open>NaN\<close>\<close>
  "toFixed1 amount = (case amount of None \<Rightarrow> ''NaN'' | Some n \<Rightarrow> string_of_int n @ ''.0'')"

definition score_text :: "int option \<Rightarrow> string" where
  \<comment> \<open>the score inside a template string\<close>
  "score_text score = (case score of None \<Rightarrow> ''undefined'' | Some c \<Rightarrow> string_of_int c)"

definition notificationTitle :: "MonitorTask \<Rightarrow> string" where
  "notificationTitle task = task_productName task @ title_tail"

definition notificationMessage :: "MonitorTask \<Rightarrow> int option \<Rightarrow> int option \<Rightarrow> string" where
  "notificationMessage task amount currentSentimentScore =
     task_productName task @ msg_score
     @ direction_text (changeDirection task currentSentimentScore) @ msg_le
     @ toFixed1 amount @ msg_current @ score_text currentSentimentScore @ msg_tail"

datatype run_result = Returned world | Threw js_error world

definition send_notifications ::
  "run_env \<Rightarrow> MonitorTask \<Rightarrow> int \<Rightarrow> int option \<Rightarrow> int option \<Rightarrow> world \<Rightarrow> run_result" where
  \<comment> \<open>the body of \<open>if (hasSignificantChange)\<close>\<close>
  "send_notifications env task aid amount current w =
     (let ttl = notificationTitle task;
          msg = notificationMessage task amount current
      in (case (if notifyInApp task
                then createNotification (createNotificationThrows env) (userId task)
                       sentiment_change ttl msg aid (task_id task) w
                else (Inr 0, w)) of
            (Inl e, w1) \<Rightarrow> Threw e w1
          | (Inr _, w1) \<Rightarrow>
              (let w2 = (if notifyEmail task
                         then (case notifyOwner (notifyOwnerThrows env) ttl msg w1 of
                                 (Inl e, w') \<Rightarrow> console_log (LogOwnerNotificationFailed e) w'
                               | (Inr _, w') \<Rightarrow> w')
                         else w1)
               in Returned (console_log (LogSignificantChange (task_productName task) amount) w2))))"

definition record_and_notify ::
  "run_env \<Rightarrow> MonitorTask \<Rightarrow> SearchResponse \<Rightarrow> SentimentAnalysis \<Rightarrow> world \<Rightarrow> run_result" where
  \<comment> \<open>the statements of \<open>executeMonitorTask\<close> that follow the call of \<open>analyzeSentiment\<close>\<close>
  "record_and_notify env task searchResponse analysis w1 =
     (let currentSentimentScore = positiveRatio analysis
      in (case createAnalysisRecord (createAnalysisRecordThrows env) (userId task)
                (task_productName task) analysis (totalFound searchResponse)
                (sources searchResponse) w1 of
            (Inl e, w2) \<Rightarrow> Threw e w2
          | (Inr aid, w2) \<Rightarrow>
              (case updateMonitorTask (updateMonitorTaskThrows env) (task_id task)
                      (set_last aid (now env) currentSentimentScore) w2 of
                 (Inl e, w3) \<Rightarrow> Threw e w3
               | (Inr _, w3) \<Rightarrow>
                   (case (if hasSignificantChange task currentSentimentScore
                          then send_notifications env task aid
                                 (changeAmount task currentSentimentScore)
                                 currentSentimentScore w3
                          else Returned w3) of
                      Threw e w4 \<Rightarrow> Threw e w4
                    | Returned w4 \<Rightarrow>
                        Returned (console_log (LogTaskCompleted (task_id task) currentSentimentScore) w4)))))"

definition analysis_console :: "SearchResult list \<Rightarrow> llm_outcome \<Rightarrow> world \<Rightarrow> world" where
  \<comment> \<open>the \<open>console.error\<close> of the \<open>catch\<close> block of \<open>analyzeSentiment\<close>\<close>
  "analysis_console searchResults outcome w =
     (case analyze_try searchResults outcome of
        Inl error \<Rightarrow> console_log (LogAnalysisError error) w
      | Inr analysis \<Rightarrow> w)"

definition executeMonitorTask :: "run_env \<Rightarrow> MonitorTask \<Rightarrow> world \<Rightarrow> run_result" where
  "executeMonitorTask env task w0 =
     (let w1 = console_log (LogExecuting (task_id task) (task_productName task)) w0
      in (case searchOutcome env of
            Inl e \<Rightarrow> Threw e w1
          | Inr searchResponse \<Rightarrow>
              (if length (results searchResponse) = 0
               then Returned (console_log (LogNoResults (task_productName task)) w1)
               else (case analyzeSentiment (task_productName task) (results searchResponse)
                            (llmOutcome env) of
                       Inl e \<Rightarrow> Threw e w1
                     | Inr analysis \<Rightarrow>
                         record_and_notify env task searchResponse analysis
                           (analysis_console (results searchResponse) (llmOutcome env) w1)))))"

definition run_caught :: "(int \<Rightarrow> run_env) \<Rightarrow> world \<Rightarrow> MonitorTask \<Rightarrow> world" where
  \<comment> \<open>the body of the \<open>for\<close> loop: \<open>try { await executeMonitorTask(task) } catch (error) { ... }\<close>\<close>
  "run_caught envs w task =
     (case executeMonitorTask (envs (task_id task)) task w of
        Returned w' \<Rightarrow> w'
      | Threw e w' \<Rightarrow> console_log (LogTaskError (task_id task) e) w')"

definition monitor_loop :: "(int \<Rightarrow> run_env) \<Rightarrow> MonitorTask list \<Rightarrow> world \<Rightarrow> world" where
  "monitor_loop envs activeTasks w = foldl (run_caught envs) w activeTasks"

datatype tasks_query = DatabaseMissing | QueryThrows js_error | QueryReturns

definition executeMonitoringTasks :: "tasks_query \<Rightarrow> (int \<Rightarrow> run_env) \<Rightarrow> world \<Rightarrow> run_result" where
  "executeMonitoringTasks query envs w0 =
     (let w1 = console_log LogSweepStart w0
      in (case query of
            QueryThrows e \<Rightarrow> Threw e w1
          | _ \<Rightarrow>
              (let activeTasks = (if query = DatabaseMissing then [] else getActiveMonitorTasks w1);
                   w2 = console_log (LogFound (length activeTasks)) w1;
                   w3 = monitor_loop envs activeTasks w2
               in Returned (console_log LogSweepCompleted w3))))"

section \<open>The interactive analysis (routers.ts)\<close>

definition not_found :: string where
  \<comment> \<open>UTF-8 bytes of the message of the \<open>NOT_FOUND\<close> error of \<open>analyze\<close>\<close>
  "not_found =
     [CHR 0xE6, CHR 0x9C, CHR 0xAA, CHR 0xE6, CHR 0x89, CHR 0xBE, CHR 0xE5, CHR 0x88, CHR
      0xB0, CHR 0xE7, CHR 0x9B, CHR 0xB8, CHR 0xE5, CHR 0x85, CHR 0xB3, CHR 0xE8, CHR 0xAF,
      CHR 0x84, CHR 0xE8, CHR 0xAE, CHR 0xBA, CHR 0xEF, CHR 0xBC, CHR 0x8C, CHR 0xE8, CHR
      0xAF, CHR 0xB7, CHR 0xE5, CHR 0xB0, CHR 0x9D, CHR 0xE8, CHR 0xAF, CHR 0x95, CHR 0xE5,
      CHR 0x85, CHR 0xB6, CHR 0xE4, CHR 0xBB, CHR 0x96, CHR 0xE4, CHR 0xBA, CHR 0xA7, CHR
      0xE5, CHR 0x93, CHR 0x81, CHR 0xE5, CHR 0x90, CHR 0x8D, CHR 0xE7, CHR 0xA7, CHR 0xB0]"

datatype analyze_error =
    InvalidInput                  \<comment> \<open>the input fails \<open>z.string().min(1).max(200)\<close>\<close>
  | TRPCError_NOT_FOUND string    \<comment> \<open>\<open>new TRPCError({ code: "NOT_FOUND", message })\<close>\<close>
  | Uncaught js_error             \<comment> \<open>an error thrown by a call and not caught\<close>

record analyze_result =
  result_id :: "int option"
  result_productName :: string
  result_analysis :: SentimentAnalysis
  result_totalCommentsAnalyzed :: nat
  result_sources :: "string list"

definition save_if_authenticated ::
  "run_env \<Rightarrow> int option \<Rightarrow> string \<Rightarrow> SentimentAnalysis \<Rightarrow> SearchResponse \<Rightarrow> world
     \<Rightarrow> int option \<times> world" where
  \<comment> \<open>\<open>if (ctx.user) { try { recordId = await createAnalysisRecord(...) } catch ... }\<close>\<close>
  "save_if_authenticated env user productName analysis searchResponse w =
     (case user of
        None \<Rightarrow> (None, w)
      | Some uid \<Rightarrow>
          (case createAnalysisRecord (createAnalysisRecordThrows env) uid productName analysis
                  (totalFound searchResponse) (sources searchResponse) w of
             (Inl e, w1) \<Rightarrow> (None, console_log (LogSaveFailed e) w1)
           | (Inr recordId, w1) \<Rightarrow> (Some recordId, w1)))"

definition analyze :: "run_env \<Rightarrow> int option \<Rightarrow> string \<Rightarrow> world \<Rightarrow> (analyze_error + analyze_result) \<times> world" where
  "analyze env user productName w =
     (if js_length productName < 1 \<or> 200 < js_length productName then (Inl InvalidInput, w)
      else (case searchOutcome env of
              Inl e \<Rightarrow> (Inl (Uncaught e), w)
            | Inr searchResponse \<Rightarrow>
                (if length (results searchResponse) = 0
                 then (Inl (TRPCError_NOT_FOUND not_found), w)
                 else (case analyzeSentiment productName (results searchResponse) (llmOutcome env) of
                         Inl e \<Rightarrow> (Inl (Uncaught e), w)
                       | Inr analysis \<Rightarrow>
                           (case save_if_authenticated env user productName analysis
                                   searchResponse
                                   (analysis_console (results searchResponse) (llmOutcome env) w) of
                              (recordId, w1) \<Rightarrow>
                                (Inr \<lparr>result_id = recordId, result_productName = productName,
                                       result_analysis = analysis,
                                       result_totalCommentsAnalyzed = totalFound searchResponse,
                                       result_sources = sources searchResponse\<rparr>, w1))))))"

section \<open>Notions used in the statements\<close>

definition bucket_of :: "SearchResult \<Rightarrow> sentiment" where
  "bucket_of result =
     (if hasPositive result \<and> \<not> hasNegative result then positive
      else if hasNegative result \<and> \<not> hasPositive result then negative
      else neutral)"

definition in_bucket :: "sentiment \<Rightarrow> SearchResult list \<Rightarrow> SearchResult list" where
  "in_bucket b searchResults = filter (\<lambda>result. bucket_of result = b) searchResults"

definition example_result :: "string \<Rightarrow> SearchResult" where
  "example_result t =
     \<lparr>text = t, source = ''Twitter'', author = Some ''@user'', url = None, date = None,
      platform = twitter\<rparr>"

definition ratio_sum :: "SentimentAnalysis \<Rightarrow> int option" where
  "ratio_sum s =
     (case (positiveRatio s, negativeRatio s, neutralRatio s) of
        (Some p, Some ng, Some nu) \<Rightarrow> Some (p + ng + nu)
      | _ \<Rightarrow> None)"

definition in_range :: "SearchResult list \<Rightarrow> rat \<Rightarrow> bool" where
  "in_range searchResults i = (1 \<le> i \<and> i \<le> of_nat (length searchResults))"

definition exemplars :: "SearchResult list \<Rightarrow> rat list \<Rightarrow> Comment list" where
  "exemplars searchResults indices =
     map (\<lambda>i. comment_of (searchResults ! nat (\<lfloor>i\<rfloor> - 1)))
       (take 5 (filter (in_range searchResults) indices))"

definition exemplars_spec :: "SearchResult list \<Rightarrow> rat list \<Rightarrow> Comment list" where
  "exemplars_spec searchResults indices =
     map (\<lambda>i. comment_of (searchResults ! nat (\<lfloor>i\<rfloor> - 1)))
       (take 5 (remdups (filter (in_range searchResults) indices)))"

definition candidates8 :: "SearchResult list" where
  "candidates8 =
     [example_result ''great daily tool, no 1'',
      example_result ''bad daily tool, run 2'',
      example_result ''bad daily tool, run 3'',
      example_result ''bad daily tool, run 4'',
      example_result ''bad daily tool, run 5'',
      example_result ''bad daily tool, run 6'',
      example_result ''bad daily tool, run 7'',
      example_result ''bad daily tool, run 8'']"


definition example_response :: llm_analysis where
  "example_response =
     \<lparr>r_overallSentiment = Some mixed, r_positiveRatio = Some 50, r_negativeRatio = Some 50,
      r_neutralRatio = Some 50, r_summary = Some ''summary'', r_keyThemes = Some [''price''],
      r_positiveIndices = Some [1, 1], r_negativeIndices = Some [], r_neutralIndices = Some [3, 0]\<rparr>"

definition empty_response :: llm_analysis where
  "empty_response =
     \<lparr>r_overallSentiment = None, r_positiveRatio = None, r_negativeRatio = None,
      r_neutralRatio = None, r_summary = None, r_keyThemes = None,
      r_positiveIndices = None, r_negativeIndices = None, r_neutralIndices = None\<rparr>"

definition candidates1 :: "SearchResult list" where
  "candidates1 = [example_result ''great daily tool, no 1'']"


fun world_of :: "run_result \<Rightarrow> world" where
  "world_of (Returned w) = w"
| "world_of (Threw e w) = w"

fun returned :: "run_result \<Rightarrow> bool" where
  "returned (Returned w) = True"
| "returned (Threw e w) = False"

definition example_summary :: SentimentAnalysis where
  "example_summary =
     \<lparr>overallSentiment = Some mixed, positiveRatio = Some 50, negativeRatio = Some 50,
      neutralRatio = Some 50, summary = Some ''summary'', keyThemes = Some [''price''],
      positiveComments =
        [comment_of (example_result ''great daily tool, no 1''),
         comment_of (example_result ''great daily tool, no 1'')],
      negativeComments = [], neutralComments = []\<rparr>"

definition chinese10 :: string where
  \<comment> \<open>a text of ten Chinese characters, thirty bytes\<close>
  "chinese10 =
     [CHR 0xE8, CHR 0xBF, CHR 0x99, CHR 0xE4, CHR 0xB8, CHR 0xAA, CHR 0xE4, CHR 0xBA, CHR 0xA7,
      CHR 0xE5, CHR 0x93, CHR 0x81, CHR 0xE9, CHR 0x9D, CHR 0x9E, CHR 0xE5, CHR 0xB8, CHR 0xB8,
      CHR 0xE5, CHR 0xA5, CHR 0xBD, CHR 0xE7, CHR 0x94, CHR 0xA8, CHR 0xE6, CHR 0x8E, CHR 0xA8,
      CHR 0xE8, CHR 0x8D, CHR 0x90]"

definition duplicates6 :: "SearchResult list" where
  \<comment> \<open>the second text has a no-break space and an ideographic space where the first has
      three spaces\<close>
  "duplicates6 =
     [example_result ''Great   tool for everyday work'',
      example_result (''great'' @ [CHR 0xC2, CHR 0xA0, CHR 0xE3, CHR 0x80, CHR 0x80]
                        @ ''tool for everyday work''),
      example_result ''great tool for  everyday work'',
      example_result ''too short'',
      example_result chinese10,
      example_result ''bad daily tool, run 2'']"

definition lower_units :: "nat list \<Rightarrow> nat list" where
  \<comment> \<open>a function that changes the letters A to Z only, to put in the place of \<open>lc\<close>\<close>
  "lower_units us = map lower_unit us"

definition example_task :: MonitorTask where
  "example_task =
     \<lparr>task_id = 1, userId = 1, task_productName = ''ChatGPT'', isActive = True,
      frequency = daily, notifyOnSignificantChange = True, significantChangeThreshold = 20,
      notifyEmail = False, notifyInApp = True, lastAnalysisId = None, lastAnalyzedAt = None,
      lastSentimentScore = Some 50\<rparr>"

definition example_world :: world where
  "example_world =
     \<lparr>analysisRecords = [], analysisAutoInc = 1,
      monitorTasks = [example_task, example_task\<lparr>task_id := 2\<rparr>, example_task\<lparr>task_id := 3\<rparr>],
      notifications = [], notificationAutoInc = 1, sentimentTrends = [],
      ownerNotifications = [], console = []\<rparr>"

definition example_env :: run_env where
  "example_env =
     \<lparr>searchOutcome =
        Inr \<lparr>results = candidates1, totalFound = 1, sources = [''Twitter''],
             sourceBreakdown =
               \<lparr>twitter_count = 1, reddit_count = 0, news_count = 0, web_count = 0\<rparr>\<rparr>,
      llmOutcome = Parsed example_response,
      createAnalysisRecordThrows = None, updateMonitorTaskThrows = None,
      createNotificationThrows = None, notifyOwnerThrows = None, now = 7\<rparr>"

definition no_results :: SearchResponse where
  "no_results =
     \<lparr>results = [], totalFound = 0, sources = [],
      sourceBreakdown = \<lparr>twitter_count = 1, reddit_count = 0, news_count = 0, web_count = 0\<rparr>\<rparr>"

definition example_envs :: "int \<Rightarrow> run_env" where
  \<comment> \<open>the search of the second task throws\<close>
  "example_envs tid =
     (if tid = 2 then example_env\<lparr>searchOutcome := Inl (Error ''search failed'')\<rparr>
      else example_env)"

section \<open>Lemmas\<close>

subsection \<open>Rounding to doubles\<close>

lemma pow2_int: "0 \<le> n \<Longrightarrow> (2::rat) powi n = 2 ^ nat n"
  by (simp add: power_int_def)

lemma ilog2_bounds:
  assumes "0 < x"
  shows "2 powi (ilog2 x) \<le> x \<and> x < 2 powi (ilog2 x + 1)"
proof -
  obtain a b where q: "quotient_of x = (a, b)" by (cases "quotient_of x")
  have b: "0 < b" using q quotient_of_denom_pos by blast
  have x: "x = of_int a / of_int b" using q quotient_of_div by blast
  have a: "0 < a"
  proof (rule ccontr)
    assume "\<not> 0 < a"
    then have "(of_int a :: rat) \<le> 0" by simp
    then have "x \<le> 0" unfolding x using b by (simp add: divide_nonpos_pos)
    with assms show False by simp
  qed
  define la where "la = bitlen a"
  define lb where "lb = bitlen b"
  have la: "2 ^ nat (la - 1) \<le> a" "a < 2 ^ nat la" using bitlen_bounds[OF a] by (simp_all add: la_def)
  have lb: "2 ^ nat (lb - 1) \<le> b" "b < 2 ^ nat lb" using bitlen_bounds[OF b] by (simp_all add: lb_def)
  have la1: "1 \<le> la"
  proof (rule ccontr)
    assume "\<not> 1 \<le> la" then have "nat la = 0" by simp
    with la(2) a show False by simp
  qed
  have lb1: "1 \<le> lb"
  proof (rule ccontr)
    assume "\<not> 1 \<le> lb" then have "nat lb = 0" by simp
    with lb(2) b show False by simp
  qed
  have A: "(of_int a :: rat) < 2 powi la"
  proof -
    have "(of_int a :: rat) < of_int (2 ^ nat la)" using la(2) by (simp only: of_int_less_iff)
    then show ?thesis using la1 by (simp add: pow2_int)
  qed
  have A': "(2::rat) powi (la - 1) \<le> of_int a"
  proof -
    have "(of_int (2 ^ nat (la - 1)) :: rat) \<le> of_int a" using la(1) by (simp only: of_int_le_iff)
    then show ?thesis using la1 by (simp add: pow2_int)
  qed
  have B: "(of_int b :: rat) < 2 powi lb"
  proof -
    have "(of_int b :: rat) < of_int (2 ^ nat lb)" using lb(2) by (simp only: of_int_less_iff)
    then show ?thesis using lb1 by (simp add: pow2_int)
  qed
  have B': "(2::rat) powi (lb - 1) \<le> of_int b"
  proof -
    have "(of_int (2 ^ nat (lb - 1)) :: rat) \<le> of_int b" using lb(1) by (simp only: of_int_le_iff)
    then show ?thesis using lb1 by (simp add: pow2_int)
  qed
  have up: "x < 2 powi (la - lb + 1)"
  proof -
    have "of_int a / of_int b < (2::rat) powi la / 2 powi (lb - 1)"
      using A B' a by (intro frac_less) simp_all
    also have "\<dots> = 2 powi (la - (lb - 1))" by (simp add: power_int_diff)
    finally show ?thesis by (simp add: x algebra_simps)
  qed
  have lo: "2 powi (la - lb - 1) \<le> x"
  proof -
    have "(2::rat) powi (la - 1) / 2 powi lb \<le> of_int a / of_int b"
      using A' B a b by (intro frac_le) simp_all
    moreover have "(2::rat) powi (la - 1) / 2 powi lb = 2 powi (la - 1 - lb)"
      by (simp add: power_int_diff)
    ultimately show ?thesis by (simp add: x algebra_simps)
  qed
  show ?thesis
    using up lo unfolding ilog2_def q by (auto simp: Let_def la_def lb_def)
qed

lemma round_half_even_le_int:
  "q \<le> of_int n \<Longrightarrow> round_half_even q \<le> n"
proof -
  assume h: "q \<le> of_int n"
  have f: "\<lfloor>q\<rfloor> \<le> n" using h by (simp add: floor_le_iff)
  show ?thesis
  proof (cases "\<lfloor>q\<rfloor> = n")
    case True
    then have "q = of_int n" using h by (metis of_int_floor_le order_antisym)
    then show ?thesis by (simp add: round_half_even_def)
  next
    case False
    with f have "\<lfloor>q\<rfloor> + 1 \<le> n" by simp
    then show ?thesis by (simp add: round_half_even_def Let_def)
  qed
qed

lemma round_half_even_ge_int:
  "of_int n \<le> q \<Longrightarrow> n \<le> round_half_even q"
proof -
  assume h: "of_int n \<le> q"
  then have "n \<le> \<lfloor>q\<rfloor>" by (simp add: le_floor_iff)
  then show ?thesis by (simp add: round_half_even_def Let_def)
qed

lemma fl_nonneg: "0 \<le> x \<Longrightarrow> 0 \<le> fl x"
proof -
  assume h: "0 \<le> x"
  show ?thesis
  proof (cases "x = 0")
    case True then show ?thesis by (simp add: fl_def)
  next
    case False
    define u where "u = (2::rat) powi (ilog2 \<bar>x\<bar> - 52)"
    have u: "0 < u" by (simp add: u_def)
    have "of_int 0 \<le> x / u" using h u by simp
    then have "0 \<le> round_half_even (x / u)" by (rule round_half_even_ge_int)
    then show ?thesis using u False by (simp add: fl_def Let_def u_def[symmetric])
  qed
qed


lemma fl_le:
  assumes x: "0 < x" and le: "x \<le> r" and N: "r / 2 powi (ilog2 x - 52) = of_int N"
  shows "fl x \<le> r"
proof -
  define u where "u = (2::rat) powi (ilog2 x - 52)"
  have u: "0 < u" by (simp add: u_def)
  have "x / u \<le> r / u" using le u by (simp add: divide_right_mono)
  then have "x / u \<le> of_int N" using N by (simp add: u_def)
  then have "round_half_even (x / u) \<le> N" by (rule round_half_even_le_int)
  then have "of_int (round_half_even (x / u)) * u \<le> of_int N * u"
    using u by (simp add: mult_right_mono)
  moreover have "of_int N * u = r" using N u by (simp add: u_def field_simps)
  moreover have "fl x = of_int (round_half_even (x / u)) * u"
    using x by (simp add: fl_def Let_def u_def)
  ultimately show ?thesis by simp
qed

lemma pow2_scale_int:
  assumes "e \<le> 52"
  shows "\<exists>N. of_int c / (2::rat) powi (e - 52) = of_int N"
proof -
  have "(2::rat) powi (e - 52) = 1 / 2 ^ nat (52 - e)"
    using assms by (simp add: power_int_def inverse_eq_divide power_one_over[symmetric] split: if_splits)
  then have "of_int c / (2::rat) powi (e - 52) = of_int (c * 2 ^ nat (52 - e))" by simp
  then show ?thesis by blast
qed

lemma ilog2_le:
  assumes "0 < x" and "x < 2 powi n" and "0 \<le> n"
  shows "ilog2 x < n"
proof -
  have "(2::rat) powi ilog2 x < 2 powi n" using ilog2_bounds[OF assms(1)] assms(2) by simp
  then show ?thesis using assms(3) by (intro power_int_le_imp_less_exp[of "2::rat"]) simp_all
qed

lemma fl_le_int:
  assumes "0 \<le> x" and "x \<le> of_int c" and "c < 2 ^ 52"
  shows "fl x \<le> of_int c"
proof (cases "x = 0")
  case True
  then show ?thesis using assms by (simp add: fl_def)
next
  case False
  then have x: "0 < x" using assms(1) by simp
  have "x < 2 powi 52" 
  proof -
    have "(of_int c :: rat) < of_int (2 ^ 52)" using assms(3) by (simp only: of_int_less_iff)
    then show ?thesis using assms(2) by simp
  qed
  then have "ilog2 x < 52" using x by (intro ilog2_le) simp_all
  then obtain N where "of_int c / (2::rat) powi (ilog2 x - 52) = of_int N"
    using pow2_scale_int[of "ilog2 x" c] by auto
  then show ?thesis using fl_le[OF x assms(2)] by blast
qed

lemma ratio_of_bounds:
  assumes "n \<le> t" and "0 < t"
  shows "0 \<le> ratio_of n t \<and> ratio_of n t \<le> 100"
proof -
  have q: "0 \<le> (of_nat n :: rat) / of_nat t" "(of_nat n :: rat) / of_nat t \<le> of_int 1"
    using assms by simp_all
  have d0: "0 \<le> js_div (of_nat n) (of_nat t)"
    unfolding js_div_def using q(1) by (rule fl_nonneg)
  have d1: "js_div (of_nat n) (of_nat t) \<le> 1"
    unfolding js_div_def using fl_le_int[OF q] by simp
  have m: "0 \<le> js_div (of_nat n) (of_nat t) * 100" "js_div (of_nat n) (of_nat t) * 100 \<le> of_int 100"
    using d0 d1 by simp_all
  have m0: "0 \<le> js_mul (js_div (of_nat n) (of_nat t)) 100"
    unfolding js_mul_def using m(1) by (rule fl_nonneg)
  have m1: "js_mul (js_div (of_nat n) (of_nat t)) 100 \<le> 100"
    unfolding js_mul_def using fl_le_int[OF m] by simp
  show ?thesis unfolding ratio_of_def Math_round_def using m0 m1
    by (auto simp: le_floor_iff floor_le_iff)
qed

lemma ratio_of_0: "ratio_of 0 t = 0"
proof -
  have "\<lfloor>(1::rat) / 2\<rfloor> = 0" by (simp add: floor_eq_iff)
  then show ?thesis by (simp add: ratio_of_def js_div_def js_mul_def fl_def Math_round_def)
qed

subsection \<open>The loop of the fallback\<close>

lemma push_upto5_take:
  "length cs \<le> 5 \<Longrightarrow> push_upto5 cs c = take 5 (cs @ [c])"
  by (simp add: push_upto5_def)

lemma push_upto5_length: "length cs \<le> 5 \<Longrightarrow> length (push_upto5 cs c) \<le> 5"
  by (simp add: push_upto5_def)

lemma fallback_step_counts:
  "positiveCount (fallback_step s r) = positiveCount s + (if bucket_of r = positive then 1 else 0)"
  "negativeCount (fallback_step s r) = negativeCount s + (if bucket_of r = negative then 1 else 0)"
  "neutralCount (fallback_step s r) = neutralCount s + (if bucket_of r = neutral then 1 else 0)"
  by (simp_all add: fallback_step_def bucket_of_def Let_def)

lemma fallback_step_lists:
  "positiveList (fallback_step s r) =
     (if bucket_of r = positive then push_upto5 (positiveList s) (comment_of r) else positiveList s)"
  "negativeList (fallback_step s r) =
     (if bucket_of r = negative then push_upto5 (negativeList s) (comment_of r) else negativeList s)"
  "neutralList (fallback_step s r) =
     (if bucket_of r = neutral then push_upto5 (neutralList s) (comment_of r) else neutralList s)"
  by (simp_all add: fallback_step_def bucket_of_def Let_def)

lemma fallback_foldl_counts:
  "positiveCount (foldl fallback_step s rs) = positiveCount s + length (in_bucket positive rs) \<and>
   negativeCount (foldl fallback_step s rs) = negativeCount s + length (in_bucket negative rs) \<and>
   neutralCount (foldl fallback_step s rs) = neutralCount s + length (in_bucket neutral rs)"
  by (induction rs arbitrary: s) (simp_all add: fallback_step_counts in_bucket_def)

lemma push_upto5_append:
  "length cs \<le> 5 \<Longrightarrow> take 5 (push_upto5 cs c @ ys) = take 5 (cs @ c # ys)"
proof (cases "length cs < 5")
  case True
  then show ?thesis by (simp add: push_upto5_def del: take_append)
next
  case False
  assume "length cs \<le> 5"
  with False have "length cs = 5" by simp
  then show ?thesis by (simp add: push_upto5_def)
qed

lemma in_bucket_Nil: "in_bucket b [] = []"
  by (simp add: in_bucket_def)

lemma in_bucket_Cons:
  "in_bucket b (r # rs) = (if bucket_of r = b then r # in_bucket b rs else in_bucket b rs)"
  by (simp add: in_bucket_def)

lemma fallback_foldl_lists:
  "length (positiveList s) \<le> 5 \<Longrightarrow> length (negativeList s) \<le> 5 \<Longrightarrow> length (neutralList s) \<le> 5 \<Longrightarrow>
   positiveList (foldl fallback_step s rs) = take 5 (positiveList s @ map comment_of (in_bucket positive rs)) \<and>
   negativeList (foldl fallback_step s rs) = take 5 (negativeList s @ map comment_of (in_bucket negative rs)) \<and>
   neutralList (foldl fallback_step s rs) = take 5 (neutralList s @ map comment_of (in_bucket neutral rs))"
proof (induction rs arbitrary: s)
  case Nil
  then show ?case by (simp add: in_bucket_def)
next
  case (Cons r rs)
  let ?s = "fallback_step s r"
  have len: "length (positiveList ?s) \<le> 5" "length (negativeList ?s) \<le> 5" "length (neutralList ?s) \<le> 5"
    using Cons.prems by (simp_all add: fallback_step_lists push_upto5_length)
  note IH = Cons.IH[OF len]
  have "foldl fallback_step s (r # rs) = foldl fallback_step ?s rs" by simp
  then show ?case
    using Cons.prems IH
    by (simp add: fallback_step_lists push_upto5_append in_bucket_Cons del: take_append foldl_Cons)
qed

lemma fallback_loop_counts:
  "positiveCount (fallback_loop rs) = length (in_bucket positive rs)"
  "negativeCount (fallback_loop rs) = length (in_bucket negative rs)"
  "neutralCount (fallback_loop rs) = length (in_bucket neutral rs)"
  using fallback_foldl_counts[of fallback_init rs]
  by (simp_all add: fallback_loop_def fallback_init_def)

lemma fallback_loop_lists:
  "positiveList (fallback_loop rs) = take 5 (map comment_of (in_bucket positive rs))"
  "negativeList (fallback_loop rs) = take 5 (map comment_of (in_bucket negative rs))"
  "neutralList (fallback_loop rs) = take 5 (map comment_of (in_bucket neutral rs))"
  using fallback_foldl_lists[of fallback_init rs]
  by (simp_all add: fallback_loop_def fallback_init_def)

lemma in_bucket_partition:
  "length (in_bucket positive rs) + length (in_bucket negative rs) + length (in_bucket neutral rs)
     = length rs"
  by (induction rs) (auto simp: in_bucket_Nil in_bucket_Cons bucket_of_def)

lemma in_bucket_mixed: "in_bucket mixed rs = []"
  by (induction rs) (auto simp: in_bucket_Nil in_bucket_Cons bucket_of_def)

subsection \<open>Reading the response of the language model\<close>

lemma is_integer_of_int: "is_integer (of_int k)"
  by (simp add: is_integer_def)

lemma map_results_ok:
  assumes "\<forall>i \<in> set indices. is_integer i \<and> in_range searchResults i"
  shows "map_results searchResults indices
           = Inr (map (\<lambda>i. comment_of (searchResults ! nat (\<lfloor>i\<rfloor> - 1))) indices)"
  using assms
proof (induction indices)
  case Nil
  then show ?case by simp
next
  case (Cons i indices)
  then have i: "is_integer i" "1 \<le> i" "i \<le> of_nat (length searchResults)"
    by (simp_all add: in_range_def)
  obtain k where k: "i = of_int k" using i(1) by (metis is_integer_def)
  have "lookup_result searchResults i = Inr (comment_of (searchResults ! nat (\<lfloor>i\<rfloor> - 1)))"
    using i(2,3) unfolding k lookup_result_def is_integer_def
    by (simp flip: of_int_diff) 
  then show ?case using Cons by simp
qed

lemma getComments_integers:
  assumes "list_all is_integer indices"
  shows "getComments searchResults indices = Inr (exemplars searchResults indices)"
proof -
  let ?kept = "take 5 (filter (in_range searchResults) indices)"
  have "\<forall>i \<in> set ?kept. is_integer i \<and> in_range searchResults i"
    using assms by (auto simp: list_all_iff dest!: in_set_takeD)
  from map_results_ok[OF this] show ?thesis
    by (simp add: getComments_def exemplars_def in_range_def[abs_def])
qed

lemma or_empty_simps: "or_empty None = []" "or_empty (Some xs) = xs"
  by (simp_all add: or_empty_def)

lemma build_analysis_integers:
  assumes "list_all is_integer (or_empty (r_positiveIndices a))"
      and "list_all is_integer (or_empty (r_negativeIndices a))"
      and "list_all is_integer (or_empty (r_neutralIndices a))"
  shows "build_analysis searchResults a =
     Inr \<lparr>overallSentiment = r_overallSentiment a,
          positiveRatio = r_positiveRatio a,
          negativeRatio = r_negativeRatio a,
          neutralRatio = r_neutralRatio a,
          summary = r_summary a,
          keyThemes = r_keyThemes a,
          positiveComments = exemplars searchResults (or_empty (r_positiveIndices a)),
          negativeComments = exemplars searchResults (or_empty (r_negativeIndices a)),
          neutralComments = exemplars searchResults (or_empty (r_neutralIndices a))\<rparr>"
  by (simp add: build_analysis_def getComments_integers[OF assms(1)]
        getComments_integers[OF assms(2)] getComments_integers[OF assms(3)])

lemma build_analysis_ratios:
  assumes "build_analysis searchResults a = Inr s"
  shows "overallSentiment s = r_overallSentiment a \<and> positiveRatio s = r_positiveRatio a \<and>
         negativeRatio s = r_negativeRatio a \<and> neutralRatio s = r_neutralRatio a \<and>
         summary s = r_summary a \<and> keyThemes s = r_keyThemes a"
  using assms by (auto simp: build_analysis_def split: sum.splits)

lemma fallback_ratio_sum: "ratio_sum (getFallbackAnalysis productName searchResults) = Some 100"
  by (simp add: getFallbackAnalysis_def Let_def ratio_sum_def)

lemma analyzeSentiment_cases:
  "analyzeSentiment productName searchResults outcome =
     (case analyze_try searchResults outcome of
        Inr s \<Rightarrow> Inr s | Inl e \<Rightarrow> Inr (getFallbackAnalysis productName searchResults))"
  by (simp add: analyzeSentiment_def)

subsection \<open>Deduplication\<close>

text \<open>The code units of a byte string: never more than the bytes, and none only of no byte.\<close>

lemma decode_first_length:
  assumes "decode_first b bs = (us, k)"
  shows "us \<noteq> [] \<and> length us \<le> Suc k \<and> k \<le> length bs"
proof -
  consider "k = 0 \<and> length us = 1" | "k = 1 \<and> length us = 1 \<and> 1 \<le> length bs"
    | "k = 2 \<and> length us = 1 \<and> 2 \<le> length bs" | "k = 3 \<and> length us \<in> {1, 2} \<and> 3 \<le> length bs"
    using assms unfolding decode_first_def Let_def by (auto split: if_splits)
  then show ?thesis by cases auto
qed

lemma utf16_length_le: "length (utf16 s) \<le> length s"
proof (induction s rule: utf16.induct)
  case 1
  then show ?case by simp
next
  case (2 b bs)
  obtain us k where d: "decode_first b bs = (us, k)" by (cases "decode_first b bs")
  have "length (utf16 (drop k bs)) \<le> length (drop k bs)" using "2.IH"[OF d[symmetric]] .
  then show ?case using decode_first_length[OF d] d by auto
qed

lemma utf16_empty: "utf16 s = [] \<longleftrightarrow> s = []"
proof (cases s)
  case Nil
  then show ?thesis by simp
next
  case (Cons b bs)
  obtain us k where d: "decode_first b bs = (us, k)" by (cases "decode_first b bs")
  then show ?thesis using Cons decode_first_length[OF d] by simp
qed

lemma js_length_le: "js_length s \<le> length s"
  by (simp add: js_length_def utf16_length_le)

lemma js_length_pos: "s \<noteq> [] \<Longrightarrow> 1 \<le> js_length s"
  using utf16_empty[of s] by (cases "utf16 s") (simp_all add: js_length_def)

text \<open>What the replacement of white space leaves.\<close>

lemma collapse_spaces_length: "length (collapse_spaces us) \<le> length us"
proof (induction us rule: collapse_spaces.induct)
  case 1
  then show ?case by simp
next
  case (2 u us)
  have "length (dropWhile is_space us) \<le> length us" by (rule length_dropWhile_le)
  with 2 show ?case by (auto)
qed

lemma collapse_spaces_only_spaces:
  "u \<in> set (collapse_spaces us) \<Longrightarrow> is_space u \<Longrightarrow> u = 32"
  by (induction us rule: collapse_spaces.induct) (auto split: if_splits)

lemma collapse_spaces_hd:
  "collapse_spaces us = v # vs \<Longrightarrow> is_space v \<Longrightarrow> us \<noteq> [] \<and> is_space (hd us)"
  by (cases us) (auto split: if_splits)

lemma collapse_spaces_no_run: "\<not> sublist [32, 32] (collapse_spaces us)"
proof (induction us rule: collapse_spaces.induct)
  case 1
  then show ?case by simp
next
  case (2 u us)
  show ?case
  proof (cases "is_space u")
    case True
    let ?r = "dropWhile is_space us"
    have nr: "\<not> sublist [32, 32] (collapse_spaces ?r)" using 2(1) True by simp
    have "\<not> prefix [32, 32] (32 # collapse_spaces ?r)"
    proof
      assume "prefix [32, 32] (32 # collapse_spaces ?r)"
      then obtain vs where v: "collapse_spaces ?r = 32 # vs" by (auto simp: prefix_def)
      have "is_space 32" by (simp add: is_space_def)
      with v have "?r \<noteq> [] \<and> is_space (hd ?r)" using collapse_spaces_hd by blast
      then show False using hd_dropWhile[of is_space us] by simp
    qed
    then show ?thesis using True nr by (simp add: sublist_Cons_right)
  next
    case False
    then have u: "u \<noteq> 32" by (auto simp: is_space_def)
    have "\<not> sublist [32, 32] (collapse_spaces us)" using 2(2) False by simp
    then show ?thesis using False u by (simp add: sublist_Cons_right)
  qed
qed

lemma collapse_spaces_none: "\<not> list_ex is_space us \<Longrightarrow> collapse_spaces us = us"
  by (induction us) simp_all

lemma filter_dropWhile_not:
  "filter (\<lambda>u. \<not> P u) (dropWhile P xs) = filter (\<lambda>u. \<not> P u) xs"
  by (induction xs) simp_all

lemma collapse_spaces_content:
  "filter (\<lambda>u. \<not> is_space u) (collapse_spaces us) = filter (\<lambda>u. \<not> is_space u) us"
proof (induction us rule: collapse_spaces.induct)
  case 1
  then show ?case by simp
next
  case (2 u us)
  have s: "is_space 32" by (simp add: is_space_def)
  show ?case
  proof (cases "is_space u")
    case True
    then show ?thesis using 2(1) s by (simp add: filter_dropWhile_not)
  next
    case False
    then show ?thesis using 2(2) by simp
  qed
qed

lemma last_dropWhile: "dropWhile P xs \<noteq> [] \<Longrightarrow> last (dropWhile P xs) = last xs"
  by (induction xs) (auto split: if_splits)

lemma collapse_spaces_append:
  "a = [] \<or> \<not> is_space (last a) \<Longrightarrow> collapse_spaces (a @ c) = collapse_spaces a @ collapse_spaces c"
proof (induction a rule: collapse_spaces.induct)
  case 1
  then show ?case by simp
next
  case (2 u us)
  show ?case
  proof (cases "is_space u")
    case True
    then have ne: "us \<noteq> []" and l: "\<not> is_space (last us)" using 2(3) by (auto split: if_splits)
    then have m: "last us \<in> set us" by simp
    have d: "dropWhile is_space (us @ c) = dropWhile is_space us @ c"
      using m l by (rule dropWhile_append1)
    have dn: "dropWhile is_space us \<noteq> []"
      using m l by auto
    have "\<not> is_space (last (dropWhile is_space us))"
      using last_dropWhile[OF dn] l by simp
    then have "collapse_spaces (dropWhile is_space us @ c)
                 = collapse_spaces (dropWhile is_space us) @ collapse_spaces c"
      using 2(1)[OF True] by simp
    then show ?thesis using True d by simp
  next
    case False
    have "us = [] \<or> \<not> is_space (last us)" using 2(3) by (auto split: if_splits)
    then show ?thesis using 2(2)[OF False] False by simp
  qed
qed

lemma collapse_spaces_run:
  assumes "ws \<noteq> []" and "list_all is_space ws" and "b = [] \<or> \<not> is_space (hd b)"
  shows "collapse_spaces (ws @ b) = 32 # collapse_spaces b"
proof -
  obtain v vs where ws: "ws = v # vs" using assms(1) by (cases ws) auto
  have "dropWhile is_space (vs @ b) = dropWhile is_space b"
    using assms(2) ws by (intro dropWhile_append2) (simp add: list_all_iff)
  also have "\<dots> = b" using assms(3) by (cases b) auto
  finally show ?thesis using ws assms(2) by simp
qed

text \<open>
  Every run of white space that is not part of a longer one is replaced by one space, and
  what is around it is treated on its own.
\<close>

lemma collapse_spaces_replaces_run:
  assumes "ws \<noteq> []" and "list_all is_space ws"
      and "a = [] \<or> \<not> is_space (last a)" and "b = [] \<or> \<not> is_space (hd b)"
  shows "collapse_spaces (a @ ws @ b) = collapse_spaces a @ 32 # collapse_spaces b"
  using collapse_spaces_append[OF assms(3), of "ws @ b"] collapse_spaces_run[OF assms(1,2,4)]
  by simp

lemma toLowerCase_units_ascii:
  "list_all (\<lambda>u. u < 128) us \<Longrightarrow> toLowerCase_units lc us = map lower_unit us"
  by (simp add: toLowerCase_units_def)

lemma dedup_key_length: "length (dedup_key lc r) \<le> 100"
proof -
  have "length (dedup_key lc r) \<le> length (take 100 (toLowerCase_units lc (utf16 (text r))))"
    unfolding dedup_key_def by (rule collapse_spaces_length)
  then show ?thesis by simp
qed

lemma deduplicate_loop_append:
  "deduplicate_loop lc rs seen acc = acc @ deduplicate_loop lc rs seen []"
proof (induction rs arbitrary: seen acc)
  case Nil
  then show ?case by simp
next
  case (Cons r rs)
  show ?case
  proof (cases "dedup_key lc r \<notin> seen \<and> 20 < js_length (text r)")
    case True
    have "deduplicate_loop lc (r # rs) seen acc = deduplicate_loop lc rs (insert (dedup_key lc r) seen) (acc @ [r])"
      using True by (simp add: Let_def)
    also have "\<dots> = (acc @ [r]) @ deduplicate_loop lc rs (insert (dedup_key lc r) seen) []"
      by (rule Cons.IH)
    also have "\<dots> = acc @ deduplicate_loop lc rs (insert (dedup_key lc r) seen) [r]"
      using Cons.IH[of "insert (dedup_key lc r) seen" "[r]"] by simp
    also have "\<dots> = acc @ deduplicate_loop lc (r # rs) seen []"
      using True by (simp add: Let_def)
    finally show ?thesis .
  next
    case False
    then show ?thesis using Cons.IH[of seen acc] by (auto simp: Let_def)
  qed
qed

lemma deduplicate_loop_snoc:
  assumes "seen = dedup_key lc ` set acc"
  shows "deduplicate_loop lc (rs @ [r]) seen acc =
           (if dedup_key lc r \<notin> dedup_key lc ` set (deduplicate_loop lc rs seen acc) \<and> 20 < js_length (text r)
            then deduplicate_loop lc rs seen acc @ [r]
            else deduplicate_loop lc rs seen acc)"
  using assms
proof (induction rs arbitrary: seen acc)
  case Nil
  then show ?case by (simp add: Let_def)
next
  case (Cons x xs)
  show ?case
  proof (cases "dedup_key lc x \<notin> seen \<and> 20 < js_length (text x)")
    case True
    have inv: "insert (dedup_key lc x) seen = dedup_key lc ` set (acc @ [x])"
      using Cons.prems by auto
    show ?thesis using True Cons.IH[OF inv] by (simp add: Let_def)
  next
    case False
    then show ?thesis using Cons.IH[OF Cons.prems] by (auto simp: Let_def)
  qed
qed

lemma deduplicateResults_snoc:
  "deduplicateResults lc (rs @ [r]) =
     (if dedup_key lc r \<notin> dedup_key lc ` set (deduplicateResults lc rs) \<and> 20 < js_length (text r)
      then deduplicateResults lc rs @ [r]
      else deduplicateResults lc rs)"
  unfolding deduplicateResults_def by (rule deduplicate_loop_snoc) simp

lemma deduplicateResults_Nil: "deduplicateResults lc [] = []"
  by (simp add: deduplicateResults_def)

lemma deduplicateResults_subseq: "subseq (deduplicateResults lc rs) rs"
proof (induction rs rule: rev_induct)
  case Nil
  then show ?case by (simp add: deduplicateResults_Nil)
next
  case (snoc r rs)
  then show ?case
    by (auto simp: deduplicateResults_snoc intro: list_emb_append_mono)
qed

lemma deduplicateResults_distinct: "distinct (map (dedup_key lc) (deduplicateResults lc rs))"
proof (induction rs rule: rev_induct)
  case Nil
  then show ?case by (simp add: deduplicateResults_Nil)
next
  case (snoc r rs)
  then show ?case by (auto simp: deduplicateResults_snoc)
qed

lemma deduplicateResults_length: "length (deduplicateResults lc rs) \<le> length rs"
  using deduplicateResults_subseq by (rule list_emb_length)

subsection \<open>Console and loop of the monitoring sweep\<close>

lemma console_log_append: "console (console_log entry w) = console w @ [entry]"
  by (simp add: console_log_def)

lemma log_frame:
  "analysisRecords (console_log entry w) = analysisRecords w"
  "analysisAutoInc (console_log entry w) = analysisAutoInc w"
  "monitorTasks (console_log entry w) = monitorTasks w"
  "notifications (console_log entry w) = notifications w"
  "notificationAutoInc (console_log entry w) = notificationAutoInc w"
  "sentimentTrends (console_log entry w) = sentimentTrends w"
  "ownerNotifications (console_log entry w) = ownerNotifications w"
  by (simp_all add: console_log_def)

lemma createAnalysisRecord_console:
  "console (snd (createAnalysisRecord throws uid pn a n srcs w)) = console w"
  by (simp add: createAnalysisRecord_def split: option.splits)

lemma updateMonitorTask_console:
  "console (snd (updateMonitorTask throws tid data w)) = console w"
  by (simp add: updateMonitorTask_def split: option.splits)

lemma createNotification_console:
  "console (snd (createNotification throws uid ty ttl msg aid tid w)) = console w"
  by (simp add: createNotification_def split: option.splits)

lemma notifyOwner_console:
  "console (snd (notifyOwner throws ttl content w)) = console w"
  by (simp add: notifyOwner_def split: option.splits)

lemma send_notifications_console:
  "\<exists>es. console (world_of (send_notifications env task aid amount current w)) = console w @ es"
proof -
  let ?ttl = "notificationTitle task"
  let ?msg = "notificationMessage task amount current"
  obtain r1 w1 where c: "(if notifyInApp task
                then createNotification (createNotificationThrows env) (userId task)
                       sentiment_change ?ttl ?msg aid (task_id task) w
                else (Inr 0, w)) = (r1, w1)" by (metis surj_pair)
  have w1: "console w1 = console w"
    using c createNotification_console[of "createNotificationThrows env" "userId task" sentiment_change ?ttl ?msg aid "task_id task" w]
    by (auto split: if_splits)
  obtain r2 w2 where n: "notifyOwner (notifyOwnerThrows env) ?ttl ?msg w1 = (r2, w2)" by (metis surj_pair)
  have w2: "console w2 = console w1"
    using n notifyOwner_console[of "notifyOwnerThrows env" ?ttl ?msg w1] by simp
  show ?thesis
    unfolding send_notifications_def Let_def c
    using w1 w2 n by (cases r1; cases r2) (auto simp: console_log_append)
qed

lemma record_and_notify_console:
  "\<exists>es. console (world_of (record_and_notify env task searchResponse analysis w)) = console w @ es"
proof -
  let ?cur = "positiveRatio analysis"
  obtain r2 w2 where c: "createAnalysisRecord (createAnalysisRecordThrows env) (userId task)
                (task_productName task) analysis (totalFound searchResponse)
                (sources searchResponse) w = (r2, w2)" by (metis surj_pair)
  have w2: "console w2 = console w"
    using c createAnalysisRecord_console[of "createAnalysisRecordThrows env" "userId task"
       "task_productName task" analysis "totalFound searchResponse" "sources searchResponse" w] by simp
  show ?thesis
  proof (cases r2)
    case (Inl e)
    then show ?thesis unfolding record_and_notify_def Let_def c using w2 by simp
  next
    case (Inr aid)
    obtain r3 w3 where u: "updateMonitorTask (updateMonitorTaskThrows env) (task_id task)
                      (set_last aid (now env) ?cur) w2 = (r3, w3)" by (metis surj_pair)
    have w3: "console w3 = console w"
      using u w2 updateMonitorTask_console[of "updateMonitorTaskThrows env" "task_id task"
          "set_last aid (now env) ?cur" w2] by simp
    show ?thesis
    proof (cases r3)
      case (Inl e)
      then show ?thesis unfolding record_and_notify_def Let_def c using Inr u w3 by simp
    next
      case r3: (Inr x)
      obtain es where es: "console (world_of (send_notifications env task aid
                (changeAmount task ?cur) ?cur w3)) = console w3 @ es"
        using send_notifications_console by blast
      show ?thesis
        unfolding record_and_notify_def Let_def c using Inr u w3 r3 es
        by (cases "send_notifications env task aid (changeAmount task ?cur) ?cur w3")
           (auto simp: console_log_append)
    qed
  qed
qed

lemma analysis_console_grows:
  "\<exists>es. console (analysis_console searchResults outcome w) = console w @ es"
  by (simp add: analysis_console_def console_log_append split: sum.splits)

lemma executeMonitorTask_console:
  "\<exists>es. console (world_of (executeMonitorTask env task w))
          = console w @ LogExecuting (task_id task) (task_productName task) # es"
proof -
  let ?w1 = "console_log (LogExecuting (task_id task) (task_productName task)) w"
  show ?thesis
  proof (cases "searchOutcome env")
    case (Inl e)
    then show ?thesis by (simp add: executeMonitorTask_def Let_def console_log_append)
  next
    case (Inr sr)
    show ?thesis
    proof (cases "analyzeSentiment (task_productName task) (results sr) (llmOutcome env)")
      case (Inl e)
      then show ?thesis using Inr by (simp add: executeMonitorTask_def Let_def console_log_append)
    next
      case a: (Inr a)
      let ?w2 = "analysis_console (results sr) (llmOutcome env) ?w1"
      obtain es2 where 2: "console ?w2 = console ?w1 @ es2"
        using analysis_console_grows by blast
      obtain es where "console (world_of (record_and_notify env task sr a ?w2)) = console ?w2 @ es"
        using record_and_notify_console by blast
      then show ?thesis using Inr a 2 by (simp add: executeMonitorTask_def Let_def console_log_append)
    qed
  qed
qed

lemma run_caught_console:
  "\<exists>es. console (run_caught envs w task)
          = console w @ LogExecuting (task_id task) (task_productName task) # es"
proof -
  obtain es where es: "console (world_of (executeMonitorTask (envs (task_id task)) task w))
          = console w @ LogExecuting (task_id task) (task_productName task) # es"
    using executeMonitorTask_console by blast
  show ?thesis
    using es by (cases "executeMonitorTask (envs (task_id task)) task w")
                (auto simp: run_caught_def console_log_append)
qed

lemma monitor_loop_append:
  "monitor_loop envs (xs @ ys) w = monitor_loop envs ys (monitor_loop envs xs w)"
  by (simp add: monitor_loop_def)

lemma monitor_loop_Cons:
  "monitor_loop envs (t # ts) w = monitor_loop envs ts (run_caught envs w t)"
  by (simp add: monitor_loop_def)

lemma monitor_loop_console_grows:
  "\<exists>es. console (monitor_loop envs ts w) = console w @ es"
proof (induction ts arbitrary: w)
  case Nil
  then show ?case by (simp add: monitor_loop_def)
next
  case (Cons t ts)
  obtain es1 where 1: "console (run_caught envs w t) = console w @ LogExecuting (task_id t) (task_productName t) # es1"
    using run_caught_console by blast
  obtain es2 where 2: "console (monitor_loop envs ts (run_caught envs w t)) = console (run_caught envs w t) @ es2"
    using Cons.IH by blast
  show ?case using 1 2 by (simp add: monitor_loop_Cons)
qed

lemma monitor_loop_executes_all:
  "t \<in> set ts \<Longrightarrow> LogExecuting (task_id t) (task_productName t) \<in> set (console (monitor_loop envs ts w))"
proof (induction ts arbitrary: w)
  case Nil
  then show ?case by simp
next
  case (Cons x ts)
  show ?case
  proof (cases "t = x")
    case True
    obtain es1 where 1: "console (run_caught envs w x) = console w @ LogExecuting (task_id x) (task_productName x) # es1"
      using run_caught_console by blast
    obtain es2 where 2: "console (monitor_loop envs ts (run_caught envs w x)) = console (run_caught envs w x) @ es2"
      using monitor_loop_console_grows by blast
    show ?thesis using True 1 2 by (simp add: monitor_loop_Cons)
  next
    case False
    then have "t \<in> set ts" using Cons.prems by simp
    then show ?thesis using Cons.IH by (simp add: monitor_loop_Cons)
  qed
qed

lemma monitor_loop_prefix: "prefix (console w) (console (monitor_loop envs ts w))"
  using monitor_loop_console_grows[of envs ts w] by (auto simp: prefix_def)

lemma getActiveMonitorTasks_console_log:
  "getActiveMonitorTasks (console_log entry w) = getActiveMonitorTasks w"
  by (simp add: getActiveMonitorTasks_def log_frame)

lemma run_caught_world:
  "run_caught envs w task =
     (case executeMonitorTask (envs (task_id task)) task w of
        Returned w' \<Rightarrow> w'
      | Threw e w' \<Rightarrow> console_log (LogTaskError (task_id task) e) w')"
  by (simp add: run_caught_def)

text \<open>The sweep, when the query for the active tasks returns them.\<close>

lemma executeMonitoringTasks_returns:
  "executeMonitoringTasks QueryReturns envs w
     = Returned (console_log LogSweepCompleted
         (monitor_loop envs (getActiveMonitorTasks w)
            (console_log (LogFound (length (getActiveMonitorTasks w)))
               (console_log LogSweepStart w))))"
  by (simp add: executeMonitoringTasks_def Let_def getActiveMonitorTasks_console_log)

lemma executeMonitoringTasks_split:
  assumes "getActiveMonitorTasks w = before @ task # rest"
  shows "executeMonitoringTasks QueryReturns envs w
     = Returned (console_log LogSweepCompleted
         (monitor_loop envs rest
            (run_caught envs
               (monitor_loop envs before
                  (console_log (LogFound (length (before @ task # rest)))
                     (console_log LogSweepStart w)))
               task)))"
  using assms by (simp add: executeMonitoringTasks_returns monitor_loop_def)

subsection \<open>Evaluation of the examples\<close>

lemma example_try_eval:
  "analyze_try candidates1 (Parsed example_response) = Inr example_summary"
  by (simp add: analyze_try_def build_analysis_def getComments_def
        lookup_result_def is_integer_def or_empty_def example_response_def candidates1_def
        example_summary_def)

lemma example_summary_eval:
  "analyzeSentiment productName candidates1 (Parsed example_response) = Inr example_summary"
  by (simp add: analyzeSentiment_def example_try_eval)

lemma empty_response_eval:
  "analyzeSentiment ''ChatGPT'' candidates1 (Parsed empty_response) =
     Inr \<lparr>overallSentiment = None, positiveRatio = None, negativeRatio = None,
          neutralRatio = None, summary = None, keyThemes = None,
          positiveComments = [], negativeComments = [], neutralComments = []\<rparr>"
  by (simp add: analyzeSentiment_def analyze_try_def build_analysis_def getComments_def
        or_empty_def empty_response_def)

lemma c8_buckets:
  "map bucket_of candidates8 =
     [positive, negative, negative, negative, negative, negative, negative, negative]"
  by code_simp

lemmas unit_eval = decode_first_def continuation_def Let_def js_length_def dedup_key_def
  toLowerCase_units_def lower_units_def lower_unit_def is_space_def example_result_def

lemma dup6: "deduplicateResults lower_units duplicates6 = [duplicates6 ! 0, duplicates6 ! 5]"
  by (simp add: unit_eval duplicates6_def chinese10_def deduplicateResults_def)

lemma dup6_keys:
  "dedup_key lower_units (duplicates6 ! 0) = utf16 ''great tool for everyday work''"
  "dedup_key lower_units (duplicates6 ! 1) = utf16 ''great tool for everyday work''"
  "dedup_key lower_units (duplicates6 ! 2) = utf16 ''great tool for everyday work''"
  "dedup_key lower_units (duplicates6 ! 5) = utf16 ''bad daily tool, run 2''"
  by (simp_all add: unit_eval duplicates6_def)

lemma dup6_lengths:
  "js_length (text (duplicates6 ! 1)) = 29"
  "js_length (text (duplicates6 ! 3)) = 9"
  "length (text (duplicates6 ! 4)) = 30"
  "js_length (text (duplicates6 ! 4)) = 10"
  "js_length (text (duplicates6 ! 5)) = 21"
  by (simp_all add: unit_eval duplicates6_def chinese10_def)

lemma dup6_take5:
  "deduplicateResults lower_units (take 5 duplicates6) = [duplicates6 ! 0]"
  by (simp add: unit_eval duplicates6_def chinese10_def deduplicateResults_def)

lemma c8_dedup: "deduplicateResults lc candidates8 = candidates8"
  by (simp add: unit_eval candidates8_def deduplicateResults_def)

lemma example_search:
  "searchSocialMedia lc candidates1 [] [] []
     = \<lparr>results = candidates1, totalFound = 1, sources = [''Twitter''],
        sourceBreakdown = \<lparr>twitter_count = 1, reddit_count = 0, news_count = 0, web_count = 0\<rparr>\<rparr>"
proof -
  have "deduplicateResults lc candidates1 = candidates1"
    by (simp add: unit_eval candidates1_def deduplicateResults_def)
  then show ?thesis
    by (simp add: searchSocialMedia_def Let_def) (simp add: candidates1_def example_result_def)
qed

lemma no_results_eval:
  "no_results
     = \<lparr>results = [], totalFound = 0, sources = [],
        sourceBreakdown = \<lparr>twitter_count = 1, reddit_count = 0, news_count = 0, web_count = 0\<rparr>\<rparr>"
  by (simp add: no_results_def)

lemma js_length_ChatGPT: "js_length ''ChatGPT'' = 7"
  by (simp add: unit_eval)

lemma example_analysis_console:
  "analysis_console candidates1 (Parsed example_response) w = w"
  by (simp add: analysis_console_def example_try_eval)

lemma candidates1_not_empty: "candidates1 \<noteq> []"
  by (simp add: candidates1_def)

lemma example_active:
  "getActiveMonitorTasks example_world
     = [example_task] @ example_task\<lparr>task_id := 2\<rparr> # [example_task\<lparr>task_id := 3\<rparr>]"
  by (simp add: getActiveMonitorTasks_def example_world_def example_task_def)

lemma example_run_eval:
  "map lastAnalyzedAt (monitorTasks (monitor_loop example_envs [example_task\<lparr>task_id := 3\<rparr>]
      (console_log (LogTaskError 2 (Error ''search failed''))
         (console_log (LogExecuting 2 ''ChatGPT'')
            (monitor_loop example_envs [example_task]
               (console_log (LogFound 3) (console_log LogSweepStart example_world)))))))
     = [Some 7, None, Some 7] \<and>
   console (monitor_loop example_envs [example_task\<lparr>task_id := 3\<rparr>]
      (console_log (LogTaskError 2 (Error ''search failed''))
         (console_log (LogExecuting 2 ''ChatGPT'')
            (monitor_loop example_envs [example_task]
               (console_log (LogFound 3) (console_log LogSweepStart example_world))))))
     = [LogSweepStart, LogFound 3,
        LogExecuting 1 ''ChatGPT'', LogTaskCompleted 1 (Some 50),
        LogExecuting 2 ''ChatGPT'', LogTaskError 2 (Error ''search failed''),
        LogExecuting 3 ''ChatGPT'', LogTaskCompleted 3 (Some 50)]"
  by (simp add: monitor_loop_def run_caught_def example_envs_def executeMonitorTask_def
        example_env_def example_summary_eval example_analysis_console
        Let_def example_task_def example_world_def console_log_def
        record_and_notify_def createAnalysisRecord_def
        updateMonitorTask_def set_last_def hasSignificantChange_def changeAmount_def
        example_summary_def candidates1_not_empty)

subsection \<open>Ratios of the fallback and frame of a run\<close>

lemma deduplicateResults_long:
  "x \<in> set (deduplicateResults lc rs) \<Longrightarrow> 20 < js_length (text x)"
  by (induction rs rule: rev_induct)
     (auto simp: deduplicateResults_Nil deduplicateResults_snoc split: if_splits)

lemma deduplicateResults_key_kept:
  "x \<in> set rs \<Longrightarrow> 20 < js_length (text x)
     \<Longrightarrow> dedup_key lc x \<in> dedup_key lc ` set (deduplicateResults lc rs)"
  by (induction rs rule: rev_induct) (auto simp: deduplicateResults_snoc)

lemma in_bucket_length_le: "length (in_bucket b rs) \<le> length rs"
  by (simp add: in_bucket_def)

lemma in_bucket_length_map:
  "length (in_bucket b rs) = length (filter (\<lambda>x. x = b) (map bucket_of rs))"
  by (simp add: in_bucket_def filter_map o_def)

lemma fallback_total_pos: "0 < fallback_total rs" "length rs \<le> fallback_total rs"
  by (simp_all add: fallback_total_def)

lemma fallback_ratios:
  "positiveRatio (getFallbackAnalysis productName rs)
     = Some (ratio_of (length (in_bucket positive rs)) (fallback_total rs))"
  "negativeRatio (getFallbackAnalysis productName rs)
     = Some (ratio_of (length (in_bucket negative rs)) (fallback_total rs))"
  "neutralRatio (getFallbackAnalysis productName rs)
     = Some (100 - ratio_of (length (in_bucket positive rs)) (fallback_total rs)
                 - ratio_of (length (in_bucket negative rs)) (fallback_total rs))"
  by (simp_all add: getFallbackAnalysis_def Let_def fallback_loop_counts)

text \<open>
  What holds of the ratios of the fallback for every input: the positive and the negative
  ratio are percentages, the neutral one is what is left of 100 and is at most 100, and
  no candidate at all gives 0, 0 and 100.
\<close>

lemma fallback_ratios_range:
  "\<exists>p ng. positiveRatio (getFallbackAnalysis productName rs) = Some p \<and>
          negativeRatio (getFallbackAnalysis productName rs) = Some ng \<and>
          neutralRatio (getFallbackAnalysis productName rs) = Some (100 - p - ng) \<and>
          0 \<le> p \<and> p \<le> 100 \<and> 0 \<le> ng \<and> ng \<le> 100 \<and> 100 - p - ng \<le> 100"
proof -
  have p: "length (in_bucket positive rs) \<le> fallback_total rs"
    using in_bucket_length_le[of positive rs] fallback_total_pos(2)[of rs] by simp
  have n: "length (in_bucket negative rs) \<le> fallback_total rs"
    using in_bucket_length_le[of negative rs] fallback_total_pos(2)[of rs] by simp
  show ?thesis
    using ratio_of_bounds[OF p fallback_total_pos(1)] ratio_of_bounds[OF n fallback_total_pos(1)]
    by (simp add: fallback_ratios)
qed

lemma fallback_ratios_empty:
  "positiveRatio (getFallbackAnalysis productName []) = Some 0 \<and>
   negativeRatio (getFallbackAnalysis productName []) = Some 0 \<and>
   neutralRatio (getFallbackAnalysis productName []) = Some 100"
  by (simp add: fallback_ratios in_bucket_Nil ratio_of_0)

text \<open>
  The quotient and the product are rounded to doubles before \<open>Math.round\<close>: 23 of 40 is
  57.5 percent, the product computed is 57.49999999999999, and the ratio is 57.
\<close>

lemma ratio_of_rounds_down: "ratio_of 23 40 = 57"
  by code_simp

lemma ratio_of_eighths: "ratio_of 1 8 = 13" "ratio_of 7 8 = 88"
  by code_simp+

lemma fallback_overall_defined: "overallSentiment (getFallbackAnalysis productName rs) \<noteq> None"
  by (simp add: getFallbackAnalysis_def Let_def)

lemma createAnalysisRecord_frame:
  "notifications (snd (createAnalysisRecord throws uid pn a n srcs w)) = notifications w"
  "ownerNotifications (snd (createAnalysisRecord throws uid pn a n srcs w)) = ownerNotifications w"
  by (simp_all add: createAnalysisRecord_def split: option.splits)

lemma updateMonitorTask_frame:
  "notifications (snd (updateMonitorTask throws tid data w)) = notifications w"
  "ownerNotifications (snd (updateMonitorTask throws tid data w)) = ownerNotifications w"
  by (simp_all add: updateMonitorTask_def split: option.splits)

lemma analysis_console_frame:
  "notifications (analysis_console searchResults outcome w) = notifications w"
  "ownerNotifications (analysis_console searchResults outcome w) = ownerNotifications w"
  by (simp_all add: analysis_console_def log_frame split: sum.splits)

lemma record_and_notify_quiet:
  assumes "\<not> hasSignificantChange task (positiveRatio analysis)"
  shows "notifications (world_of (record_and_notify env task searchResponse analysis w)) = notifications w \<and>
         ownerNotifications (world_of (record_and_notify env task searchResponse analysis w)) = ownerNotifications w"
proof -
  let ?cur = "positiveRatio analysis"
  obtain r2 w2 where c: "createAnalysisRecord (createAnalysisRecordThrows env) (userId task)
                (task_productName task) analysis (totalFound searchResponse)
                (sources searchResponse) w = (r2, w2)" by (metis surj_pair)
  have w2: "notifications w2 = notifications w" "ownerNotifications w2 = ownerNotifications w"
    using c createAnalysisRecord_frame[of "createAnalysisRecordThrows env" "userId task"
       "task_productName task" analysis "totalFound searchResponse" "sources searchResponse" w]
    by simp_all
  show ?thesis
  proof (cases r2)
    case (Inl e)
    then show ?thesis unfolding record_and_notify_def Let_def c using w2 by simp
  next
    case (Inr aid)
    obtain r3 w3 where u: "updateMonitorTask (updateMonitorTaskThrows env) (task_id task)
                      (set_last aid (now env) ?cur) w2 = (r3, w3)" by (metis surj_pair)
    have w3: "notifications w3 = notifications w" "ownerNotifications w3 = ownerNotifications w"
      using u w2 updateMonitorTask_frame[of "updateMonitorTaskThrows env" "task_id task"
          "set_last aid (now env) ?cur" w2] by simp_all
    show ?thesis
      unfolding record_and_notify_def Let_def c using Inr u w3 assms
      by (cases r3) (simp_all add: log_frame)
  qed
qed

lemma executeMonitorTask_quiet:
  assumes "\<And>current. \<not> hasSignificantChange task current"
  shows "notifications (world_of (executeMonitorTask env task w)) = notifications w \<and>
         ownerNotifications (world_of (executeMonitorTask env task w)) = ownerNotifications w"
proof -
  let ?w1 = "console_log (LogExecuting (task_id task) (task_productName task)) w"
  show ?thesis
  proof (cases "searchOutcome env")
    case (Inl e)
    then show ?thesis by (simp add: executeMonitorTask_def Let_def log_frame)
  next
    case (Inr sr)
    show ?thesis
    proof (cases "analyzeSentiment (task_productName task) (results sr) (llmOutcome env)")
      case (Inl e)
      then show ?thesis using Inr by (simp add: executeMonitorTask_def Let_def log_frame)
    next
      case a: (Inr a)
      let ?w2 = "analysis_console (results sr) (llmOutcome env) ?w1"
      have "notifications (world_of (record_and_notify env task sr a ?w2)) = notifications ?w2 \<and>
            ownerNotifications (world_of (record_and_notify env task sr a ?w2)) = ownerNotifications ?w2"
        using assms by (intro record_and_notify_quiet) simp
      then show ?thesis
        using Inr a by (simp add: executeMonitorTask_def Let_def log_frame analysis_console_frame)
    qed
  qed
qed

subsection \<open>The error of the rounding\<close>

lemma round_half_even_upper: "of_int (round_half_even q) \<le> q + 1 / 2"
proof -
  define f where "f = \<lfloor>q\<rfloor>"
  have f: "of_int f \<le> q" by (simp add: f_def)
  consider "q - of_int f < 1 / 2" | "1 / 2 < q - of_int f" | "q - of_int f = 1 / 2"
    by linarith
  then show ?thesis
  proof cases
    case 1
    then have "round_half_even q = f" by (simp add: round_half_even_def Let_def f_def)
    then show ?thesis using f by simp
  next
    case 2
    then have "round_half_even q = f + 1" by (simp add: round_half_even_def Let_def f_def)
    then show ?thesis using 2 by simp
  next
    case 3
    then have "round_half_even q = f \<or> round_half_even q = f + 1"
      by (simp add: round_half_even_def Let_def f_def)
    then show ?thesis using 3 f by auto
  qed
qed

lemma fl_upper:
  assumes "0 \<le> x"
  shows "fl x \<le> x * (1 + 1 / 2 ^ 53)"
proof (cases "x = 0")
  case True
  then show ?thesis by (simp add: fl_def)
next
  case False
  then have x: "0 < x" using assms by simp
  define u where "u = (2::rat) powi (ilog2 x - 52)"
  have u: "0 < u" by (simp add: u_def)
  have "u = 2 powi ilog2 x / 2 ^ 52" by (simp add: u_def power_int_diff)
  also have "\<dots> \<le> x / 2 ^ 52" using ilog2_bounds[OF x] by (simp add: divide_right_mono)
  finally have ux: "u \<le> x / 2 ^ 52" .
  have "fl x = of_int (round_half_even (x / u)) * u"
    using x by (simp add: fl_def Let_def u_def)
  also have "\<dots> \<le> (x / u + 1 / 2) * u"
    using round_half_even_upper[of "x / u"] u by (simp add: mult_right_mono)
  also have "\<dots> = x + u / 2" using u by (simp add: field_simps)
  also have "\<dots> \<le> x + (x / 2 ^ 52) / 2" using ux by simp
  also have "\<dots> = x * (1 + 1 / 2 ^ 53)" by (simp add: field_simps)
  finally show ?thesis .
qed

lemma Math_round_upper: "of_int (Math_round y) \<le> y + 1 / 2"
  by (simp add: Math_round_def)

lemma ratio_of_upper:
  assumes "0 < t"
  shows "of_int (ratio_of n t) \<le> 100 * (of_nat n / of_nat t) * (1 + 1 / 2 ^ 53)\<^sup>2 + (1 / 2 :: rat)"
proof -
  define q :: rat where "q = of_nat n / of_nat t"
  define E :: rat where "E = 1 + 1 / 2 ^ 53"
  have E: "0 < E" by (simp add: E_def)
  have q: "0 \<le> q" by (simp add: q_def)
  have a: "fl q \<le> q * E" using fl_upper[OF q] by (simp add: E_def)
  have a0: "0 \<le> fl q" using q by (rule fl_nonneg)
  have b0: "0 \<le> fl q * 100" using a0 by simp
  have "fl (fl q * 100) \<le> fl q * 100 * E" using fl_upper[OF b0] by (simp add: E_def)
  also have "\<dots> \<le> (q * E) * 100 * E" using a E by (simp add: mult_right_mono)
  also have "\<dots> = 100 * q * E\<^sup>2" by (simp add: power2_eq_square)
  finally have "fl (fl q * 100) \<le> 100 * q * E\<^sup>2" .
  then show ?thesis
    using Math_round_upper[of "fl (fl q * 100)"]
    by (simp add: ratio_of_def js_mul_def js_div_def q_def E_def)
qed

lemma ratio_of_pair_le_101:
  assumes "n + m \<le> t" and "0 < t"
  shows "ratio_of n t + ratio_of m t \<le> 101"
proof -
  define E :: rat where "E = 1 + 1 / 2 ^ 53"
  have E2: "100 * E\<^sup>2 < 101" by (simp add: E_def power2_eq_square)
  have E0: "0 \<le> E\<^sup>2" by simp
  have s: "(of_nat n / of_nat t + of_nat m / of_nat t :: rat) \<le> 1"
  proof -
    have "(of_nat n / of_nat t + of_nat m / of_nat t :: rat) = of_nat (n + m) / of_nat t"
      by (simp add: add_divide_distrib)
    also have "\<dots> \<le> 1" using assms by simp
    finally show ?thesis .
  qed
  have "of_int (ratio_of n t + ratio_of m t)
          \<le> 100 * (of_nat n / of_nat t) * E\<^sup>2 + 1 / 2 + (100 * (of_nat m / of_nat t) * E\<^sup>2 + 1 / 2)"
    using ratio_of_upper[OF assms(2), of n] ratio_of_upper[OF assms(2), of m]
    by (simp add: E_def)
  also have "\<dots> = 100 * E\<^sup>2 * (of_nat n / of_nat t + of_nat m / of_nat t) + 1"
    by (simp add: algebra_simps)
  also have "\<dots> \<le> 100 * E\<^sup>2 * 1 + 1"
    using s E0 by (intro add_right_mono mult_left_mono) simp_all
  also have "\<dots> < 102" using E2 by simp
  finally have "(of_int (ratio_of n t + ratio_of m t) :: rat) < of_int 102" by simp
  then have "ratio_of n t + ratio_of m t < 102" by (simp only: of_int_less_iff)
  then show ?thesis by simp
qed

lemma fallback_neutral_lower:
  "\<exists>nu. neutralRatio (getFallbackAnalysis productName rs) = Some nu \<and> - 1 \<le> nu"
proof -
  have "length (in_bucket positive rs) + length (in_bucket negative rs) \<le> length rs"
    using in_bucket_partition[of rs] by simp
  then have le: "length (in_bucket positive rs) + length (in_bucket negative rs) \<le> fallback_total rs"
    using fallback_total_pos(2)[of rs] by simp
  show ?thesis
    using ratio_of_pair_le_101[OF le fallback_total_pos(1)] by (simp add: fallback_ratios)
qed

section \<open>The claims\<close>

subsection \<open>C1: the three ratios add up to 100\<close>

text \<open>
  C1, as stated: every summary that \<open>analyzeSentiment\<close> returns, from the language model
  or from the fallback, has ratios that add up to exactly 100. The ratios of a parsed
  response are copied without a check: a response with 50, 50 and 50 is returned as it is.
\<close>

theorem ratio_sum_counterexample:
  "analyzeSentiment ''ChatGPT'' candidates1 (Parsed example_response) = Inr example_summary \<and>
   ratio_sum example_summary = Some 150"
  by (simp add: example_summary_eval) (simp add: ratio_sum_def example_summary_def)

text \<open>
  C1, amended: the summary of the local fallback has ratios that add up to exactly 100;
  a summary that \<open>analyzeSentiment\<close> returns is either that of the fallback or carries the
  three ratios of the parsed response unchanged, so that on this path the sum is 100 exactly
  when the ratios of the response add up to 100.
\<close>

theorem ratio_sum_fallback_or_response:
  "ratio_sum (getFallbackAnalysis productName searchResults) = Some 100 \<and>
   (analyzeSentiment productName searchResults outcome = Inr s \<longrightarrow>
      s = getFallbackAnalysis productName searchResults \<or>
      (\<exists>a. outcome = Parsed a \<and> positiveRatio s = r_positiveRatio a \<and>
           negativeRatio s = r_negativeRatio a \<and> neutralRatio s = r_neutralRatio a))"
proof (intro conjI impI)
  show "ratio_sum (getFallbackAnalysis productName searchResults) = Some 100"
    by (rule fallback_ratio_sum)
next
  assume r: "analyzeSentiment productName searchResults outcome = Inr s"
  show "s = getFallbackAnalysis productName searchResults \<or>
      (\<exists>a. outcome = Parsed a \<and> positiveRatio s = r_positiveRatio a \<and>
           negativeRatio s = r_negativeRatio a \<and> neutralRatio s = r_neutralRatio a)"
  proof (cases "analyze_try searchResults outcome")
    case (Inl e)
    then show ?thesis using r by (simp add: analyzeSentiment_def)
  next
    case (Inr s')
    then have s: "s' = s" using r by (simp add: analyzeSentiment_def)
    show ?thesis
    proof (cases outcome)
      case (Parsed a)
      then have "build_analysis searchResults a = Inr s"
        using Inr s by (simp add: analyze_try_def)
      then show ?thesis using Parsed build_analysis_ratios by blast
    qed (use Inr in \<open>simp_all add: analyze_try_def\<close>)
  qed
qed

theorem ratio_sum_fallback_or_response_witness:
  "ratio_sum (getFallbackAnalysis ''ChatGPT'' candidates1) = Some 100 \<and>
   analyzeSentiment ''ChatGPT'' candidates1 (Parsed example_response) = Inr example_summary \<and>
   (example_summary = getFallbackAnalysis ''ChatGPT'' candidates1 \<or>
    positiveRatio example_summary = r_positiveRatio example_response \<and>
    negativeRatio example_summary = r_negativeRatio example_response \<and>
    neutralRatio example_summary = r_neutralRatio example_response)"
  using ratio_sum_fallback_or_response
          [of "''ChatGPT''" candidates1 "Parsed example_response" example_summary]
  by (simp add: example_summary_eval)

subsection \<open>C2: the significant change of a monitored run\<close>

text \<open>
  C2, as stated: with a previous score \<open>p\<close> the run flags a significant change exactly when
  \<open>|current - p|\<close> reaches the threshold. The check is made only for a task whose
  \<open>notifyOnSignificantChange\<close> is set: with the flag off, a previous score of 50, a
  threshold of 20 and a current score of 90, no change is flagged.
\<close>

theorem significant_change_counterexample:
  "lastSentimentScore (example_task\<lparr>notifyOnSignificantChange := False\<rparr>) = Some 50 \<and>
   significantChangeThreshold (example_task\<lparr>notifyOnSignificantChange := False\<rparr>) \<le> \<bar>90 - 50\<bar> \<and>
   \<not> hasSignificantChange (example_task\<lparr>notifyOnSignificantChange := False\<rparr>) (Some 90)"
  by (simp add: example_task_def hasSignificantChange_def)

text \<open>
  C2, amended: a task without a previous score, and a task whose
  \<open>notifyOnSignificantChange\<close> is off, has no significant change, whatever the current
  score and the threshold, and its run creates no notification and sends none to the
  owner. For a task with the previous score \<open>p\<close> and \<open>notifyOnSignificantChange\<close> set, the
  amount of change is \<open>|current - p|\<close>, the change is significant exactly when the amount
  is at least the threshold, and the direction is up exactly when \<open>current > p\<close>, down
  otherwise.
\<close>

theorem significant_change_rule:
  "(lastSentimentScore task = None \<or> \<not> notifyOnSignificantChange task \<longrightarrow>
      \<not> hasSignificantChange task score \<and>
      notifications (world_of (executeMonitorTask env task w)) = notifications w \<and>
      ownerNotifications (world_of (executeMonitorTask env task w)) = ownerNotifications w) \<and>
   (lastSentimentScore task = Some p \<and> notifyOnSignificantChange task \<longrightarrow>
      changeAmount task (Some current) = Some \<bar>current - p\<bar> \<and>
      (hasSignificantChange task (Some current) \<longleftrightarrow>
         significantChangeThreshold task \<le> \<bar>current - p\<bar>) \<and>
      (changeDirection task (Some current) = up \<longleftrightarrow> p < current) \<and>
      (changeDirection task (Some current) = down \<longleftrightarrow> \<not> p < current))"
proof (intro conjI impI)
  assume n: "lastSentimentScore task = None \<or> \<not> notifyOnSignificantChange task"
  then have q: "\<And>c. \<not> hasSignificantChange task c"
    by (auto simp: hasSignificantChange_def split: option.splits)
  then show "\<not> hasSignificantChange task score" by simp
  from executeMonitorTask_quiet[OF q]
  show "notifications (world_of (executeMonitorTask env task w)) = notifications w"
    and "ownerNotifications (world_of (executeMonitorTask env task w)) = ownerNotifications w"
    by simp_all
next
  assume s: "lastSentimentScore task = Some p \<and> notifyOnSignificantChange task"
  then show "changeAmount task (Some current) = Some \<bar>current - p\<bar>"
    by (simp add: changeAmount_def)
  from s show "hasSignificantChange task (Some current) \<longleftrightarrow>
         significantChangeThreshold task \<le> \<bar>current - p\<bar>"
    by (simp add: hasSignificantChange_def changeAmount_def)
  from s show "changeDirection task (Some current) = up \<longleftrightarrow> p < current"
    by (simp add: changeDirection_def Let_def)
  from s show "changeDirection task (Some current) = down \<longleftrightarrow> \<not> p < current"
    by (simp add: changeDirection_def Let_def)
qed

theorem significant_change_rule_witness:
  "lastSentimentScore example_task = Some 50 \<and> notifyOnSignificantChange example_task \<and>
   significantChangeThreshold example_task = 20 \<and>
   changeAmount example_task (Some 70) = Some 20 \<and>
   hasSignificantChange example_task (Some 70) \<and>
   changeDirection example_task (Some 70) = up \<and>
   \<not> hasSignificantChange (example_task\<lparr>significantChangeThreshold := 21\<rparr>) (Some 30) \<and>
   changeDirection example_task (Some 30) = down \<and>
   lastSentimentScore (example_task\<lparr>lastSentimentScore := None\<rparr>) = None \<and>
   \<not> hasSignificantChange (example_task\<lparr>lastSentimentScore := None\<rparr>) (Some 70) \<and>
   notifications (world_of (executeMonitorTask example_env
       (example_task\<lparr>lastSentimentScore := None\<rparr>) example_world)) = []"
  using significant_change_rule[of example_task "Some 70" example_env example_world 50 70]
        significant_change_rule[of "example_task\<lparr>significantChangeThreshold := 21\<rparr>"
          "Some 30" example_env example_world 50 30]
        significant_change_rule[of example_task "Some 30" example_env example_world 50 30]
        significant_change_rule[of "example_task\<lparr>lastSentimentScore := None\<rparr>" "Some 70"
          example_env example_world 50 70]
  by (simp add: example_task_def example_world_def)

subsection \<open>C3: deduplication\<close>

text \<open>
  C3. \<open>deduplicateResults\<close> goes through the results in their order and keeps a result
  exactly when its text is longer than 20 (the \<open>length\<close> of the string, which counts UTF-16
  code units) and its key is not the key of a result kept before it. So the output is a
  subsequence of the input, it is not longer than the input, its keys are pairwise distinct,
  every result kept is longer than 20, and the key of every input longer than 20 is the key
  of a result kept.

  The key is made of \<open>lowered\<close>, the first 100 code units of the text in lower case, by
  replacing every run of white space by one space. It has at most 100 code units; its
  white space is the space only, and never two in a row; what is not white space in it is
  what is not white space in \<open>lowered\<close>, in the same order; without white space in it
  \<open>lowered\<close> is the key; and a run of white space with no white space next to it becomes
  one space between the keys of what is before and after it. All of this holds whatever the function \<open>lc\<close> is that puts
  a text with a character outside ASCII in lower case.
\<close>

theorem deduplicateResults_keeps_first:
  assumes "lowered = take 100 (toLowerCase_units lc (utf16 (text r)))"
  shows "deduplicateResults lc [] = [] \<and>
   deduplicateResults lc (rs @ [r]) =
     (if 20 < js_length (text r) \<and>
         dedup_key lc r \<notin> dedup_key lc ` set (deduplicateResults lc rs)
      then deduplicateResults lc rs @ [r]
      else deduplicateResults lc rs) \<and>
   subseq (deduplicateResults lc rs) rs \<and>
   length (deduplicateResults lc rs) \<le> length rs \<and>
   distinct (map (dedup_key lc) (deduplicateResults lc rs)) \<and>
   (\<forall>x \<in> set (deduplicateResults lc rs). 20 < js_length (text x)) \<and>
   (\<forall>x \<in> set rs. 20 < js_length (text x) \<longrightarrow>
      dedup_key lc x \<in> dedup_key lc ` set (deduplicateResults lc rs)) \<and>
   length (dedup_key lc r) \<le> 100 \<and>
   (\<forall>u \<in> set (dedup_key lc r). is_space u \<longrightarrow> u = 32) \<and>
   \<not> sublist [32, 32] (dedup_key lc r) \<and>
   filter (\<lambda>u. \<not> is_space u) (dedup_key lc r) = filter (\<lambda>u. \<not> is_space u) lowered \<and>
   (\<not> list_ex is_space lowered \<longrightarrow> dedup_key lc r = lowered) \<and>
   (\<forall>a ws b. lowered = a @ ws @ b \<and> ws \<noteq> [] \<and> list_all is_space ws \<and>
         (a = [] \<or> \<not> is_space (last a)) \<and> (b = [] \<or> \<not> is_space (hd b))
      \<longrightarrow> dedup_key lc r = collapse_spaces a @ 32 # collapse_spaces b)"
proof -
  have k: "dedup_key lc r = collapse_spaces lowered"
    using assms by (simp add: dedup_key_def)
  have 1: "deduplicateResults lc [] = []"
    by (rule deduplicateResults_Nil)
  have 2: "deduplicateResults lc (rs @ [r]) =
     (if 20 < js_length (text r) \<and>
         dedup_key lc r \<notin> dedup_key lc ` set (deduplicateResults lc rs)
      then deduplicateResults lc rs @ [r]
      else deduplicateResults lc rs)"
    by (simp add: deduplicateResults_snoc)
  have 3: "subseq (deduplicateResults lc rs) rs"
    by (rule deduplicateResults_subseq)
  have 4: "length (deduplicateResults lc rs) \<le> length rs"
    by (rule deduplicateResults_length)
  have 5: "distinct (map (dedup_key lc) (deduplicateResults lc rs))"
    by (rule deduplicateResults_distinct)
  have 6: "\<forall>x \<in> set (deduplicateResults lc rs). 20 < js_length (text x)"
    using deduplicateResults_long by blast
  have 7: "\<forall>x \<in> set rs. 20 < js_length (text x) \<longrightarrow>
      dedup_key lc x \<in> dedup_key lc ` set (deduplicateResults lc rs)"
    using deduplicateResults_key_kept by blast
  have 8: "length (dedup_key lc r) \<le> 100"
    by (rule dedup_key_length)
  have 9: "\<forall>u \<in> set (dedup_key lc r). is_space u \<longrightarrow> u = 32"
    unfolding k using collapse_spaces_only_spaces by blast
  have 10: "\<not> sublist [32, 32] (dedup_key lc r)"
    unfolding k by (rule collapse_spaces_no_run)
  have 11: "filter (\<lambda>u. \<not> is_space u) (dedup_key lc r) = filter (\<lambda>u. \<not> is_space u) lowered"
    unfolding k by (rule collapse_spaces_content)
  have 12: "\<not> list_ex is_space lowered \<longrightarrow> dedup_key lc r = lowered"
    unfolding k using collapse_spaces_none by blast
  have 13: "\<forall>a ws b. lowered = a @ ws @ b \<and> ws \<noteq> [] \<and> list_all is_space ws \<and>
         (a = [] \<or> \<not> is_space (last a)) \<and> (b = [] \<or> \<not> is_space (hd b))
      \<longrightarrow> dedup_key lc r = collapse_spaces a @ 32 # collapse_spaces b"
    unfolding k using collapse_spaces_replaces_run by blast
  show ?thesis
    using 1 2 3 4 5 6 7 8 9 10 11 12 13 by (intro conjI)
qed

theorem deduplicateResults_keeps_first_witness:
  "utf16 ''great'' @ [160, 12288] @ utf16 ''tool for everyday work''
     = take 100 (toLowerCase_units lower_units (utf16 (text (duplicates6 ! 1)))) \<and>
   20 < js_length (text (duplicates6 ! 1)) \<and>
   dedup_key lower_units (duplicates6 ! 0) = utf16 ''great tool for everyday work'' \<and>
   dedup_key lower_units (duplicates6 ! 1) = utf16 ''great tool for everyday work'' \<and>
   deduplicateResults lower_units ([duplicates6 ! 0] @ [duplicates6 ! 1]) = [duplicates6 ! 0] \<and>
   length (text (duplicates6 ! 4)) = 30 \<and>
   js_length (text (duplicates6 ! 4)) = 10 \<and>
   deduplicateResults lower_units duplicates6 = [duplicates6 ! 0, duplicates6 ! 5]"
proof -
  let ?a = "utf16 ''great''"
  let ?b = "utf16 ''tool for everyday work''"
  have c: "?a @ [160, 12288] @ ?b
             = take 100 (toLowerCase_units lower_units (utf16 (text (duplicates6 ! 1))))"
    by (simp add: unit_eval duplicates6_def)
  have ws: "[160, 12288] \<noteq> []" "list_all is_space [160, 12288]"
    by (simp_all add: is_space_def)
  have a: "?a = [] \<or> \<not> is_space (last ?a)" "?b = [] \<or> \<not> is_space (hd ?b)"
    by (simp_all add: unit_eval)
  have n: "collapse_spaces ?a @ 32 # collapse_spaces ?b = utf16 ''great tool for everyday work''"
    by (simp add: unit_eval)
  have one: "deduplicateResults lower_units [duplicates6 ! 0] = [duplicates6 ! 0]"
    by (simp add: unit_eval duplicates6_def deduplicateResults_def)
  have l: "20 < js_length (text (duplicates6 ! 1))"
    unfolding dup6_lengths(1) by simp
  note th = deduplicateResults_keeps_first[OF c, of "[duplicates6 ! 0]"]
  have k0: "dedup_key lower_units (duplicates6 ! 0) = utf16 ''great tool for everyday work''"
    by (rule dup6_keys(1))
  have "dedup_key lower_units (duplicates6 ! 1) = collapse_spaces ?a @ 32 # collapse_spaces ?b"
    using th ws a by blast
  then have k1: "dedup_key lower_units (duplicates6 ! 1) = utf16 ''great tool for everyday work''"
    using n by (rule trans)
  have "deduplicateResults lower_units ([duplicates6 ! 0] @ [duplicates6 ! 1]) =
     (if 20 < js_length (text (duplicates6 ! 1)) \<and>
         dedup_key lower_units (duplicates6 ! 1)
           \<notin> dedup_key lower_units ` set (deduplicateResults lower_units [duplicates6 ! 0])
      then deduplicateResults lower_units [duplicates6 ! 0] @ [duplicates6 ! 1]
      else deduplicateResults lower_units [duplicates6 ! 0])"
    using th by (rule conjunct1[OF conjunct2])
  also have "\<dots> = [duplicates6 ! 0]"
    unfolding one k1 by (simp only: list.set image_insert image_empty k0 insertI1 simp_thms if_False)
  finally have d: "deduplicateResults lower_units ([duplicates6 ! 0] @ [duplicates6 ! 1])
                     = [duplicates6 ! 0]" .
  show ?thesis
    by (intro conjI c l k0 k1 d dup6_lengths(3) dup6_lengths(4) dup6)
qed

subsection \<open>C4: the ratios of the local fallback\<close>

text \<open>
  C4 says that each of the three ratios of the fallback is a percentage between 0 and 100.
  The neutral ratio is what the two rounded ratios leave of 100, and both can round up:
  of eight candidates, one positive and seven negative, the positive ratio is 13 (from
  12.5), the negative one 88 (from 87.5) and the neutral one -1. The eight candidates are
  what the search can return: the deduplication keeps all of them, whatever \<open>lc\<close> is.
\<close>

theorem fallback_neutral_ratio_negative:
  "deduplicateResults lc candidates8 = candidates8 \<and>
   length (in_bucket positive candidates8) = 1 \<and>
   length (in_bucket negative candidates8) = 7 \<and>
   positiveRatio (getFallbackAnalysis ''ChatGPT'' candidates8) = Some 13 \<and>
   negativeRatio (getFallbackAnalysis ''ChatGPT'' candidates8) = Some 88 \<and>
   neutralRatio (getFallbackAnalysis ''ChatGPT'' candidates8) = Some (- 1)"
proof -
  have b: "length (in_bucket positive candidates8) = 1" "length (in_bucket negative candidates8) = 7"
    by (simp_all add: in_bucket_length_map c8_buckets)
  have t: "fallback_total candidates8 = 8"
    by (simp add: fallback_total_def candidates8_def)
  have r: "ratio_of (Suc 0) 8 = 13"
    using ratio_of_eighths(1) by simp
  show ?thesis
    by (simp add: c8_dedup fallback_ratios b t r ratio_of_eighths)
qed

subsection \<open>C5: the exemplars of a bucket\<close>

text \<open>
  C5, as stated: the exemplars of a bucket come from the index list of the response with
  the indices out of range dropped, duplicates removed and at most five kept.
  \<open>exemplars_spec\<close> is that reading. Duplicates are not removed: the index list \<open>[1, 1]\<close>
  gives the first candidate twice.
\<close>

theorem exemplars_counterexample:
  "analyzeSentiment ''ChatGPT'' candidates1 (Parsed example_response) = Inr example_summary \<and>
   length (positiveComments example_summary) = 2 \<and>
   length (exemplars_spec candidates1 (or_empty (r_positiveIndices example_response))) = 1"
  by (simp add: example_summary_eval)
     (simp add: example_summary_def exemplars_spec_def in_range_def candidates1_def
        example_response_def or_empty_def)

text \<open>
  C5, amended: for a response whose index lists hold integers only, the exemplars of a
  bucket come from its index list (the empty list when the response has none) by dropping
  the indices outside \<open>[1, candidateCount]\<close> and keeping the first five of the others, in
  the order of the response and with their repetitions; each index kept gives the text, the
  source and the author of the candidate at that position. There are at most five
  exemplars in a bucket.
\<close>

theorem exemplars_from_indices:
  assumes "list_all is_integer (or_empty (r_positiveIndices a))"
      and "list_all is_integer (or_empty (r_negativeIndices a))"
      and "list_all is_integer (or_empty (r_neutralIndices a))"
  shows "\<exists>s. analyzeSentiment productName searchResults (Parsed a) = Inr s \<and>
           positiveComments s = exemplars searchResults (or_empty (r_positiveIndices a)) \<and>
           negativeComments s = exemplars searchResults (or_empty (r_negativeIndices a)) \<and>
           neutralComments s = exemplars searchResults (or_empty (r_neutralIndices a)) \<and>
           length (positiveComments s) \<le> 5 \<and> length (negativeComments s) \<le> 5 \<and>
           length (neutralComments s) \<le> 5"
  by (simp add: analyzeSentiment_def analyze_try_def build_analysis_integers[OF assms]
        exemplars_def)

theorem exemplars_from_indices_witness:
  "list_all is_integer (or_empty (r_positiveIndices example_response)) \<and>
   list_all is_integer (or_empty (r_negativeIndices example_response)) \<and>
   list_all is_integer (or_empty (r_neutralIndices example_response)) \<and>
   analyzeSentiment ''ChatGPT'' candidates1 (Parsed example_response) = Inr example_summary \<and>
   positiveComments example_summary = exemplars candidates1 [1, 1] \<and>
   neutralComments example_summary = exemplars candidates1 [3, 0] \<and>
   exemplars candidates1 [3, 0] = []"
proof -
  have i: "list_all is_integer (or_empty (r_positiveIndices example_response))"
          "list_all is_integer (or_empty (r_negativeIndices example_response))"
          "list_all is_integer (or_empty (r_neutralIndices example_response))"
    by (simp_all add: example_response_def or_empty_def is_integer_def)
  have e: "exemplars candidates1 [3, 0] = []"
    by (simp add: exemplars_def in_range_def candidates1_def)
  show ?thesis
    using exemplars_from_indices[OF i, of "''ChatGPT''" candidates1] i e
    by (simp add: example_summary_eval) (simp add: example_response_def or_empty_def)
qed

subsection \<open>C6: no error reaches the caller\<close>

text \<open>
  C6. Whatever the call of the language model and the handling of its response come to,
  \<open>analyzeSentiment\<close> returns a summary and raises nothing. When the \<open>try\<close> block throws (the
  call fails, the response has no content, the content does not parse, the parsed value is
  \<open>null\<close>, or reading a candidate for an exemplar fails) the summary is that of the local
  fallback; otherwise it is the one built in the \<open>try\<close> block.
\<close>

theorem analyzeSentiment_never_raises:
  "(\<exists>s. analyzeSentiment productName searchResults outcome = Inr s) \<and>
   (analyze_try searchResults outcome = Inl e \<longrightarrow>
      analyzeSentiment productName searchResults outcome
        = Inr (getFallbackAnalysis productName searchResults)) \<and>
   (analyze_try searchResults outcome = Inr s' \<longrightarrow>
      analyzeSentiment productName searchResults outcome = Inr s') \<and>
   analyze_try searchResults (InvokeThrows e) = Inl e \<and>
   analyze_try searchResults NoContent = Inl (Error ''No response from LLM'') \<and>
   analyze_try searchResults ParseThrows = Inl SyntaxError \<and>
   analyze_try searchResults ParsedNull = Inl TypeError \<and>
   (getComments searchResults (or_empty (r_positiveIndices a)) = Inl e \<longrightarrow>
      analyze_try searchResults (Parsed a) = Inl e)"
proof (intro conjI impI)
  show "\<exists>s. analyzeSentiment productName searchResults outcome = Inr s"
    by (cases "analyze_try searchResults outcome") (simp_all add: analyzeSentiment_def)
next
  assume "analyze_try searchResults outcome = Inl e"
  then show "analyzeSentiment productName searchResults outcome
        = Inr (getFallbackAnalysis productName searchResults)"
    by (simp add: analyzeSentiment_def)
next
  assume "analyze_try searchResults outcome = Inr s'"
  then show "analyzeSentiment productName searchResults outcome = Inr s'"
    by (simp add: analyzeSentiment_def)
next
  assume "getComments searchResults (or_empty (r_positiveIndices a)) = Inl e"
  then show "analyze_try searchResults (Parsed a) = Inl e"
    by (simp add: analyze_try_def build_analysis_def)
qed (simp_all add: analyze_try_def)

theorem analyzeSentiment_never_raises_witness:
  "analyze_try candidates1 ParseThrows = Inl SyntaxError \<and>
   analyzeSentiment ''ChatGPT'' candidates1 ParseThrows
     = Inr (getFallbackAnalysis ''ChatGPT'' candidates1) \<and>
   analyze_try candidates1 (Parsed example_response) = Inr example_summary \<and>
   analyzeSentiment ''ChatGPT'' candidates1 (Parsed example_response) = Inr example_summary \<and>
   getComments (candidates1 @ candidates1)
       (or_empty (r_positiveIndices (example_response\<lparr>r_positiveIndices := Some [3 / 2]\<rparr>)))
     = Inl TypeError \<and>
   analyzeSentiment ''ChatGPT'' (candidates1 @ candidates1)
       (Parsed (example_response\<lparr>r_positiveIndices := Some [3 / 2]\<rparr>))
     = Inr (getFallbackAnalysis ''ChatGPT'' (candidates1 @ candidates1))"
proof -
  let ?a = "example_response\<lparr>r_positiveIndices := Some [3 / 2]\<rparr>"
  have f: "\<lfloor>1 / 2 :: rat\<rfloor> = 0" by (simp add: floor_eq_iff)
  have g2: "getComments (candidates1 @ candidates1) (or_empty (r_positiveIndices ?a)) = Inl TypeError"
    by (simp add: getComments_def or_empty_def example_response_def candidates1_def
          lookup_result_def is_integer_def f)
  show ?thesis
    using analyzeSentiment_never_raises
            [of "''ChatGPT''" candidates1 ParseThrows SyntaxError example_summary]
          analyzeSentiment_never_raises
            [of "''ChatGPT''" candidates1 "Parsed example_response" TypeError example_summary]
          analyzeSentiment_never_raises
            [of "''ChatGPT''" "candidates1 @ candidates1" "Parsed ?a" TypeError _ ?a]
          g2
    by (simp add: example_try_eval)
qed

subsection \<open>C7: a response without a required field\<close>

text \<open>
  C7, as stated: a response in which a required field is absent is rejected and the
  summary is that of the fallback. No field is looked for: from a response with none of the
  nine fields the summary is built all the same, with the six copied fields absent and no
  exemplars, and it is not the summary of the fallback.
\<close>

theorem absent_fields_counterexample:
  "analyzeSentiment ''ChatGPT'' candidates1 (Parsed empty_response)
     \<noteq> Inr (getFallbackAnalysis ''ChatGPT'' candidates1)"
proof
  let ?built = "\<lparr>overallSentiment = None, positiveRatio = None, negativeRatio = None,
          neutralRatio = None, summary = None, keyThemes = None,
          positiveComments = [], negativeComments = [], neutralComments = []\<rparr>"
  assume "analyzeSentiment ''ChatGPT'' candidates1 (Parsed empty_response)
            = Inr (getFallbackAnalysis ''ChatGPT'' candidates1)"
  then have "getFallbackAnalysis ''ChatGPT'' candidates1 = ?built"
    by (simp only: empty_response_eval sum.inject)
  then have "overallSentiment (getFallbackAnalysis ''ChatGPT'' candidates1)
               = overallSentiment ?built"
    by (simp only:)
  then have "overallSentiment (getFallbackAnalysis ''ChatGPT'' candidates1) = None"
    by simp
  then show False using fallback_overall_defined by blast
qed

text \<open>
  C7, amended: a response without content, a content that does not parse, the JSON value
  \<open>null\<close> and a failing call are failures, and the summary is that of the fallback. A
  parsed response is not rejected for a field it lacks: when its index lists hold integers
  only, the summary has the label, the ratios, the narrative and the themes of the response,
  each of them absent where the response has none, and an index list that is absent counts
  as the empty list.
\<close>

theorem absent_fields_pass_through:
  "(outcome = NoContent \<or> outcome = ParseThrows \<or> outcome = ParsedNull \<or>
    outcome = InvokeThrows e \<longrightarrow>
      analyzeSentiment productName searchResults outcome
        = Inr (getFallbackAnalysis productName searchResults)) \<and>
   (list_all is_integer (or_empty (r_positiveIndices a)) \<and>
    list_all is_integer (or_empty (r_negativeIndices a)) \<and>
    list_all is_integer (or_empty (r_neutralIndices a)) \<longrightarrow>
      analyzeSentiment productName searchResults (Parsed a) =
        Inr \<lparr>overallSentiment = r_overallSentiment a,
             positiveRatio = r_positiveRatio a,
             negativeRatio = r_negativeRatio a,
             neutralRatio = r_neutralRatio a,
             summary = r_summary a,
             keyThemes = r_keyThemes a,
             positiveComments = exemplars searchResults (or_empty (r_positiveIndices a)),
             negativeComments = exemplars searchResults (or_empty (r_negativeIndices a)),
             neutralComments = exemplars searchResults (or_empty (r_neutralIndices a))\<rparr>) \<and>
   or_empty None = []"
  by (auto simp: analyzeSentiment_def analyze_try_def build_analysis_integers or_empty_def)

theorem absent_fields_pass_through_witness:
  "analyzeSentiment ''ChatGPT'' candidates1 NoContent
     = Inr (getFallbackAnalysis ''ChatGPT'' candidates1) \<and>
   list_all is_integer (or_empty (r_positiveIndices empty_response)) \<and>
   list_all is_integer (or_empty (r_negativeIndices empty_response)) \<and>
   list_all is_integer (or_empty (r_neutralIndices empty_response)) \<and>
   analyzeSentiment ''ChatGPT'' candidates1 (Parsed empty_response) =
     Inr \<lparr>overallSentiment = None, positiveRatio = None, negativeRatio = None,
          neutralRatio = None, summary = None, keyThemes = None,
          positiveComments = [], negativeComments = [], neutralComments = []\<rparr>"
  using absent_fields_pass_through[of NoContent TypeError "''ChatGPT''" candidates1 empty_response]
  by (simp add: empty_response_def or_empty_def exemplars_def)

subsection \<open>C8: a search without results\<close>

text \<open>
  C8. When the search returns no result, the run of a monitored task returns without an
  error after writing two lines to the console and nothing else: no analysis record and no
  trend is added, the monitoring tasks are as they were (\<open>lastAnalyzedAt\<close>,
  \<open>lastSentimentScore\<close> and \<open>lastAnalysisId\<close> among their fields), no notification is
  created and none is sent to the owner. The interactive \<open>analyze\<close>, given a product name it
  accepts, throws the \<open>NOT_FOUND\<close> error with its message, returns no summary and writes
  nothing.
\<close>

theorem zero_results_is_noop:
  assumes "searchOutcome env = Inr searchResponse" and "results searchResponse = []"
  shows "executeMonitorTask env task w =
           Returned (w\<lparr>console := console w @
                        [LogExecuting (task_id task) (task_productName task),
                         LogNoResults (task_productName task)]\<rparr>) \<and>
         analysisRecords (world_of (executeMonitorTask env task w)) = analysisRecords w \<and>
         sentimentTrends (world_of (executeMonitorTask env task w)) = sentimentTrends w \<and>
         monitorTasks (world_of (executeMonitorTask env task w)) = monitorTasks w \<and>
         notifications (world_of (executeMonitorTask env task w)) = notifications w \<and>
         ownerNotifications (world_of (executeMonitorTask env task w)) = ownerNotifications w \<and>
         (1 \<le> js_length productName \<and> js_length productName \<le> 200 \<longrightarrow>
            analyze env user productName w = (Inl (TRPCError_NOT_FOUND not_found), w))"
  using assms by (simp add: executeMonitorTask_def analyze_def Let_def console_log_def)

theorem zero_results_is_noop_witness:
  "searchOutcome (example_env\<lparr>searchOutcome := Inr no_results\<rparr>) = Inr no_results \<and>
   results no_results = [] \<and>
   executeMonitorTask (example_env\<lparr>searchOutcome := Inr no_results\<rparr>) example_task example_world
     = Returned (example_world\<lparr>console := [LogExecuting 1 ''ChatGPT'', LogNoResults ''ChatGPT'']\<rparr>) \<and>
   analyze (example_env\<lparr>searchOutcome := Inr no_results\<rparr>) (Some 1) ''ChatGPT'' example_world
     = (Inl (TRPCError_NOT_FOUND not_found), example_world)"
proof -
  have n: "results no_results = []" by (simp add: no_results_eval)
  show ?thesis
    using zero_results_is_noop
            [of "example_env\<lparr>searchOutcome := Inr no_results\<rparr>" no_results example_task
                example_world "''ChatGPT''" "Some 1"] n
    by (simp add: example_task_def example_world_def js_length_ChatGPT)
qed

subsection \<open>C9: a failing task does not stop the sweep\<close>

text \<open>
  C9. With the active tasks \<open>before @ task # rest\<close>, and \<open>wb\<close> the world in which the sweep
  reaches \<open>task\<close> (after its two first console lines and the runs of the tasks before),
  the sweep returns, without an error, the world that the loop over \<open>rest\<close> makes of what
  the run of \<open>task\<close> left, with the closing console line. When the run of \<open>task\<close> throws,
  that is the world the failed run left with the error and the identifier of the task
  written to the console: the tasks after it are run from there as they are after a run
  that returned. The task being any of the active tasks, each of them is run to its end in
  its turn, whatever the tasks before it did: all that its run writes to the console, from
  its first line on, is part of the console that the sweep leaves. Only the query for the
  active tasks makes the sweep itself throw, before any task is run.
\<close>

theorem sweep_isolates_failures:
  assumes "getActiveMonitorTasks w = before @ task # rest"
      and "wb = monitor_loop envs before
                  (console_log (LogFound (length (before @ task # rest)))
                     (console_log LogSweepStart w))"
  shows "executeMonitoringTasks QueryReturns envs w
           = Returned (console_log LogSweepCompleted
               (monitor_loop envs rest (run_caught envs wb task))) \<and>
     (executeMonitorTask (envs (task_id task)) task wb = Threw e w' \<longrightarrow>
        executeMonitoringTasks QueryReturns envs w
          = Returned (console_log LogSweepCompleted
              (monitor_loop envs rest (console_log (LogTaskError (task_id task) e) w')))) \<and>
     (executeMonitorTask (envs (task_id task)) task wb = Returned w' \<longrightarrow>
        executeMonitoringTasks QueryReturns envs w
          = Returned (console_log LogSweepCompleted (monitor_loop envs rest w'))) \<and>
     prefix (console (world_of (executeMonitorTask (envs (task_id task)) task wb)))
       (console (world_of (executeMonitoringTasks QueryReturns envs w))) \<and>
     (\<forall>t \<in> set (before @ task # rest).
        LogExecuting (task_id t) (task_productName t)
          \<in> set (console (world_of (executeMonitoringTasks QueryReturns envs w)))) \<and>
     executeMonitoringTasks (QueryThrows e') envs w = Threw e' (console_log LogSweepStart w)"
proof -
  let ?w2 = "console_log (LogFound (length (before @ task # rest))) (console_log LogSweepStart w)"
  let ?run = "executeMonitorTask (envs (task_id task)) task wb"
  have s: "executeMonitoringTasks QueryReturns envs w
           = Returned (console_log LogSweepCompleted
               (monitor_loop envs rest (run_caught envs wb task)))"
    using executeMonitoringTasks_split[OF assms(1), of envs] assms(2) by simp
  have t: "?run = Threw e w' \<longrightarrow>
        executeMonitoringTasks QueryReturns envs w
          = Returned (console_log LogSweepCompleted
              (monitor_loop envs rest (console_log (LogTaskError (task_id task) e) w')))"
    unfolding s by (simp add: run_caught_def)
  have r: "?run = Returned w' \<longrightarrow>
        executeMonitoringTasks QueryReturns envs w
          = Returned (console_log LogSweepCompleted (monitor_loop envs rest w'))"
    unfolding s by (simp add: run_caught_def)
  have "prefix (console (world_of ?run)) (console (run_caught envs wb task))"
    by (cases ?run) (simp_all add: run_caught_def console_log_append)
  also have "prefix \<dots> (console (monitor_loop envs rest (run_caught envs wb task)))"
    by (rule monitor_loop_prefix)
  also have "prefix \<dots> (console (world_of (executeMonitoringTasks QueryReturns envs w)))"
    unfolding s by (simp add: console_log_append)
  finally have p: "prefix (console (world_of ?run))
       (console (world_of (executeMonitoringTasks QueryReturns envs w)))" .
  have l: "monitor_loop envs rest (run_caught envs wb task)
             = monitor_loop envs (before @ task # rest) ?w2"
    using assms(2) by (simp add: monitor_loop_def)
  have x: "\<forall>t \<in> set (before @ task # rest).
        LogExecuting (task_id t) (task_productName t)
          \<in> set (console (world_of (executeMonitoringTasks QueryReturns envs w)))"
    unfolding s l using monitor_loop_executes_all[of _ "before @ task # rest" envs ?w2]
    by (simp add: console_log_append)
  have q: "executeMonitoringTasks (QueryThrows e') envs w = Threw e' (console_log LogSweepStart w)"
    by (simp add: executeMonitoringTasks_def Let_def)
  show ?thesis
    using s t r p x q by (intro conjI)
qed

theorem sweep_isolates_failures_witness:
  "getActiveMonitorTasks example_world
     = [example_task] @ example_task\<lparr>task_id := 2\<rparr> # [example_task\<lparr>task_id := 3\<rparr>] \<and>
   executeMonitorTask (example_envs (task_id (example_task\<lparr>task_id := 2\<rparr>)))
       (example_task\<lparr>task_id := 2\<rparr>)
       (monitor_loop example_envs [example_task]
          (console_log (LogFound 3) (console_log LogSweepStart example_world)))
     = Threw (Error ''search failed'')
         (console_log (LogExecuting 2 ''ChatGPT'')
            (monitor_loop example_envs [example_task]
               (console_log (LogFound 3) (console_log LogSweepStart example_world)))) \<and>
   returned (executeMonitoringTasks QueryReturns example_envs example_world) \<and>
   map lastAnalyzedAt
     (monitorTasks (world_of (executeMonitoringTasks QueryReturns example_envs example_world)))
     = [Some 7, None, Some 7] \<and>
   console (world_of (executeMonitoringTasks QueryReturns example_envs example_world))
     = [LogSweepStart, LogFound 3,
        LogExecuting 1 ''ChatGPT'', LogTaskCompleted 1 (Some 50),
        LogExecuting 2 ''ChatGPT'', LogTaskError 2 (Error ''search failed''),
        LogExecuting 3 ''ChatGPT'', LogTaskCompleted 3 (Some 50),
        LogSweepCompleted]"
proof -
  let ?wb = "monitor_loop example_envs [example_task]
          (console_log (LogFound 3) (console_log LogSweepStart example_world))"
  have wb: "?wb = monitor_loop example_envs [example_task]
          (console_log (LogFound (length ([example_task] @ example_task\<lparr>task_id := 2\<rparr>
                                           # [example_task\<lparr>task_id := 3\<rparr>])))
             (console_log LogSweepStart example_world))"
    by (simp add: numeral_3_eq_3)
  have t: "executeMonitorTask (example_envs (task_id (example_task\<lparr>task_id := 2\<rparr>)))
       (example_task\<lparr>task_id := 2\<rparr>) ?wb
     = Threw (Error ''search failed'') (console_log (LogExecuting 2 ''ChatGPT'') ?wb)"
    by (simp add: executeMonitorTask_def example_envs_def example_env_def Let_def example_task_def)
  note th = sweep_isolates_failures[OF example_active wb]
  have "executeMonitoringTasks QueryReturns example_envs example_world
          = Returned (console_log LogSweepCompleted
              (monitor_loop example_envs [example_task\<lparr>task_id := 3\<rparr>]
                 (console_log (LogTaskError (task_id (example_task\<lparr>task_id := 2\<rparr>))
                                 (Error ''search failed''))
                    (console_log (LogExecuting 2 ''ChatGPT'') ?wb))))"
    using th[THEN conjunct2, THEN conjunct1] t by (rule mp)
  then have s: "executeMonitoringTasks QueryReturns example_envs example_world
          = Returned (console_log LogSweepCompleted
              (monitor_loop example_envs [example_task\<lparr>task_id := 3\<rparr>]
                 (console_log (LogTaskError 2 (Error ''search failed''))
                    (console_log (LogExecuting 2 ''ChatGPT'') ?wb))))"
    by simp
  have r: "returned (executeMonitoringTasks QueryReturns example_envs example_world)"
    unfolding s by simp
  have m: "map lastAnalyzedAt
     (monitorTasks (world_of (executeMonitoringTasks QueryReturns example_envs example_world)))
     = [Some 7, None, Some 7]"
    unfolding s using example_run_eval by (simp add: log_frame)
  have c: "console (world_of (executeMonitoringTasks QueryReturns example_envs example_world))
     = [LogSweepStart, LogFound 3,
        LogExecuting 1 ''ChatGPT'', LogTaskCompleted 1 (Some 50),
        LogExecuting 2 ''ChatGPT'', LogTaskError 2 (Error ''search failed''),
        LogExecuting 3 ''ChatGPT'', LogTaskCompleted 3 (Some 50),
        LogSweepCompleted]"
    unfolding s using example_run_eval by (simp add: console_log_append)
  show ?thesis
    by (intro conjI example_active t r m c)
qed

subsection \<open>C10: the buckets of the local fallback\<close>

text \<open>
  C10. In the local fallback every candidate is counted in exactly one of the three
  buckets, the one that \<open>bucket_of\<close> gives it, so the three counts add up to the number of
  candidates; and the exemplar list of a bucket holds the first five candidates of that
  bucket, in the order of the input.
\<close>

theorem fallback_buckets_partition:
  "positiveCount (fallback_loop searchResults) = length (in_bucket positive searchResults) \<and>
   negativeCount (fallback_loop searchResults) = length (in_bucket negative searchResults) \<and>
   neutralCount (fallback_loop searchResults) = length (in_bucket neutral searchResults) \<and>
   in_bucket mixed searchResults = [] \<and>
   positiveCount (fallback_loop searchResults) + negativeCount (fallback_loop searchResults)
     + neutralCount (fallback_loop searchResults) = length searchResults \<and>
   positiveComments (getFallbackAnalysis productName searchResults)
     = take 5 (map comment_of (in_bucket positive searchResults)) \<and>
   negativeComments (getFallbackAnalysis productName searchResults)
     = take 5 (map comment_of (in_bucket negative searchResults)) \<and>
   neutralComments (getFallbackAnalysis productName searchResults)
     = take 5 (map comment_of (in_bucket neutral searchResults))"
  using in_bucket_partition[of searchResults]
  by (simp add: fallback_loop_counts fallback_loop_lists in_bucket_mixed
        getFallbackAnalysis_def Let_def)

theorem fallback_buckets_partition_witness:
  "positiveCount (fallback_loop candidates8) = 1 \<and>
   negativeCount (fallback_loop candidates8) = 7 \<and>
   neutralCount (fallback_loop candidates8) = 0 \<and>
   length (negativeComments (getFallbackAnalysis ''ChatGPT'' candidates8)) = 5 \<and>
   positiveComments (getFallbackAnalysis ''ChatGPT'' candidates8)
     = [comment_of (candidates8 ! 0)]"
proof -
  have n: "length (in_bucket positive candidates8) = 1" "length (in_bucket negative candidates8) = 7"
          "length (in_bucket neutral candidates8) = 0"
    by (simp_all add: in_bucket_length_map c8_buckets)
  have p: "in_bucket positive candidates8 = [candidates8 ! 0]"
    using c8_buckets by (simp add: in_bucket_def candidates8_def)
  show ?thesis
    using fallback_buckets_partition[of candidates8 "''ChatGPT''"] n p by simp
qed

end
